theory Spec2Isabelle
  imports Complex_Main "HOL-Library.Sublist" "HOL-Library.Log_Nat"
begin

section \<open>Platform values\<close>

text \<open>
  The worker runs on a platform that supplies a key-value
  namespace, an outbound \<^verbatim>\<open>fetch\<close>, \<^verbatim>\<open>JSON\<close>, \<^verbatim>\<open>Math.random\<close> and the clock.
  The platform is not part of the repository: its operations are parameters of the
  model (the record \<open>runtime\<close> below), and every effect a handler performs on it is
  appended to a trace.

  A parsed JSON value. \<open>JObj\<close> lists the own properties of the object.
\<close>

datatype json =
    JNull
  | JBool bool
  | JNum real
  | JStr string
  | JArr "json list"
  | JObj "(string \<times> json) list"

text \<open>JavaScript truthiness of a parsed JSON value (\<^verbatim>\<open>!tokens\<close> is its negation).\<close>

fun truthy :: "json \<Rightarrow> bool" where
  "truthy JNull = False"
| "truthy (JBool b) = b"
| "truthy (JNum r) = (r \<noteq> 0)"
| "truthy (JStr s) = (s \<noteq> [])"
| "truthy (JArr xs) = True"
| "truthy (JObj fs) = True"

text \<open>
  Truthiness of a value of type \<^verbatim>\<open>string | null | undefined\<close>: \<open>None\<close> is
  null or undefined, and the empty string is falsy too.
\<close>

definition truthy_string :: "string option \<Rightarrow> bool" where
  "truthy_string s = (case s of None \<Rightarrow> False | Some v \<Rightarrow> v \<noteq> [])"

text \<open>A \<^verbatim>\<open>${x}\<close> hole of a template literal, for \<^verbatim>\<open>x: string | undefined\<close>.\<close>

definition template :: "string option \<Rightarrow> string" where
  "template s = (case s of None \<Rightarrow> ''undefined'' | Some v \<Rightarrow> v)"

text \<open>\<^verbatim>\<open>tokens.access_token\<close>: the property of an object, undefined on anything else.\<close>

fun access_token :: "json \<Rightarrow> json option" where
  "access_token (JObj fs) = map_of fs ''access_token''"
| "access_token j = None"

datatype exn = SyntaxError | TypeError | RangeError

subsection \<open>Outbound requests\<close>

text \<open>
  The \<^verbatim>\<open>Authorization\<close> header of an outbound request: \<open>Basic_btoa x\<close> stands
  for \<^verbatim>\<open>`Basic ${btoa(x)}`\<close> and \<open>Bearer_of v\<close> for \<^verbatim>\<open>`Bearer ${v}`\<close>; the base64
  and string conversions are the platform's.
\<close>

datatype credential = Basic_btoa string | Bearer_of "json option"

record upstream_request =
  u_url :: string
  u_method :: string
  u_content_type :: string
  u_authorization :: credential
  u_body :: "(string \<times> string) list"

text \<open>
  What the handlers read of an upstream response: \<open>u_json\<close> is the result of
  \<^verbatim>\<open>response.json()\<close>, \<open>None\<close> when the body is not JSON and the call rejects.
\<close>

record upstream_response =
  u_status :: nat
  u_statusText :: string
  u_json :: "json option"

definition ok :: "upstream_response \<Rightarrow> bool" where
  "ok r = (200 \<le> u_status r \<and> u_status r \<le> 299)"

subsection \<open>The key-value namespace and the trace of effects\<close>

record kv_entry =
  kv_value :: string
  expirationTtl :: "nat option"

datatype event =
    KVGet string
  | KVPut string string "nat option"
  | KVDelete string
  | Fetch upstream_request upstream_response

text \<open>
  \<open>SPOTIFY_DATA\<close> is the live content of the namespace (an expired entry is absent);
  \<open>trace\<close> lists the platform calls made so far, oldest first.
\<close>

record world =
  SPOTIFY_DATA :: "string \<rightharpoonup> kv_entry"
  trace :: "event list"

text \<open>
  A value of \<^verbatim>\<open>Math.random()\<close>: a double from 0 up to but excluding 1. Every such
  double is a binary fraction, its significand divided by a power of two, with a
  significand of at most 53 bits.
\<close>

record unit_double =
  significand :: nat
  shift :: nat

record runtime =
  upstream :: "upstream_request \<Rightarrow> upstream_response"
  Math_random :: "nat \<Rightarrow> unit_double"
  JSON_parse :: "string \<Rightarrow> json option"
  JSON_stringify :: "json \<Rightarrow> nat \<Rightarrow> string"
  Date_toISOString :: string

definition kv_get :: "string \<Rightarrow> world \<Rightarrow> string option \<times> world" where
  "kv_get k w =
     (map_option kv_value (SPOTIFY_DATA w k), w\<lparr>trace := trace w @ [KVGet k]\<rparr>)"

definition kv_put :: "string \<Rightarrow> string \<Rightarrow> nat option \<Rightarrow> world \<Rightarrow> world" where
  "kv_put k v ttl w =
     w\<lparr>SPOTIFY_DATA := (SPOTIFY_DATA w)(k \<mapsto> \<lparr>kv_value = v, expirationTtl = ttl\<rparr>),
       trace := trace w @ [KVPut k v ttl]\<rparr>"

definition kv_delete :: "string \<Rightarrow> world \<Rightarrow> world" where
  "kv_delete k w =
     w\<lparr>SPOTIFY_DATA := (SPOTIFY_DATA w)(k := None), trace := trace w @ [KVDelete k]\<rparr>"

definition global_fetch ::
  "runtime \<Rightarrow> upstream_request \<Rightarrow> world \<Rightarrow> upstream_response \<times> world" where
  "global_fetch rt rq w =
     (upstream rt rq, w\<lparr>trace := trace w @ [Fetch rq (upstream rt rq)]\<rparr>)"

section \<open>Requests, responses and configuration\<close>

text \<open>
  An inbound request after \<^verbatim>\<open>new URL(request.url)\<close>: the handlers read the method
  (\<open>http_method\<close>, for \<^verbatim>\<open>request.method\<close>),
  the origin, the path, the query parameters in their order, and one header.
\<close>

record request =
  http_method :: string
  origin :: string
  pathname :: string
  searchParams :: "(string \<times> string) list"
  Authorization :: "string option"

text \<open>\<^verbatim>\<open>url.searchParams.get(name)\<close>: the first value of that name, or null.\<close>

definition searchParams_get :: "request \<Rightarrow> string \<Rightarrow> string option" where
  "searchParams_get req name = map_of (searchParams req) name"

text \<open>
  The HTML pages are presentation: a page is kept as its template and the values
  interpolated into it.
\<close>

datatype page =
    RootPage string string string
  | SetupPage
  | CredentialsPage string string
  | OAuthSuccessPage

datatype body = NoBody | Text string | Page page

record response =
  status :: nat
  headers :: "(string \<times> string) list"
  body :: body

record Env =
  SPOTIFY_CLIENT_ID :: "string option"
  SPOTIFY_CLIENT_SECRET :: "string option"
  API_KEY :: "string option"
  ENVIRONMENT :: "string option"

definition corsHeaders :: "(string \<times> string) list" where
  "corsHeaders =
     [(''Access-Control-Allow-Origin'', ''*''),
      (''Access-Control-Allow-Methods'', ''GET, POST, PUT, DELETE, OPTIONS''),
      (''Access-Control-Allow-Headers'', ''Content-Type, Authorization'')]"

definition json_headers :: "(string \<times> string) list" where
  "json_headers = (''Content-Type'', ''application/json'') # corsHeaders"

definition html_headers :: "(string \<times> string) list" where
  "html_headers = (''Content-Type'', ''text/html'') # corsHeaders"

text \<open>
  \<^verbatim>\<open>new Response(body, {status, headers})\<close>. The constructor throws a RangeError for
  a status outside 200..599 and a TypeError for a body on a null-body status.
\<close>

definition new_Response ::
  "body \<Rightarrow> nat \<Rightarrow> (string \<times> string) list \<Rightarrow> exn + response" where
  "new_Response b s hs =
     (if s < 200 \<or> 599 < s then Inl RangeError
      else if b \<noteq> NoBody \<and> s \<in> {204, 205, 304} then Inl TypeError
      else Inr \<lparr>status = s, headers = hs, body = b\<rparr>)"

section \<open>Utility functions\<close>

text \<open>\<^verbatim>\<open>charset.charAt(i)\<close>: the empty string out of range.\<close>

definition charAt :: "string \<Rightarrow> int \<Rightarrow> string" where
  "charAt s i = (if 0 \<le> i \<and> i < int (length s) then [s ! nat i] else [])"

definition random_charset :: string where
  "random_charset = ''ABCDEFGHIJKLMNOPQRSTUVWXYZabcdefghijklmnopqrstuvwxyz0123456789''"

definition api_key_charset :: string where
  "api_key_charset = random_charset @ ''-_''"

text \<open>What the platform promises of a draw: a 53-bit significand and a value below 1.\<close>

definition is_unit_double :: "unit_double \<Rightarrow> bool" where
  "is_unit_double r = (significand r < 2 ^ 53 \<and> significand r < 2 ^ shift r)"

text \<open>
  \<^verbatim>\<open>Math.floor(Math.random() * charset.length)\<close> for a draw \<open>r\<close> and a length \<open>n\<close>.
  The multiplication is that of doubles: the exact product, \<open>significand r * n\<close>
  divided by \<open>2 ^ shift r\<close>, is rounded to 53 significant bits, a tie going to the
  even neighbour; the result is then floored. (A product in the subnormal range has
  fewer bits, but it lies below 1 and floors to 0 under either rounding.)
\<close>

definition Math_floor_times :: "unit_double \<Rightarrow> nat \<Rightarrow> int" where
  "Math_floor_times r n =
     (let a = significand r * n;
          d = floorlog 2 a - 53;
          q = a div 2 ^ d;
          rest = a mod 2 ^ d;
          rounded = (if 2 ^ d < 2 * rest \<or> (2 * rest = 2 ^ d \<and> odd q) then q + 1 else q)
      in int ((rounded * 2 ^ d) div 2 ^ shift r))"

text \<open>
  The loop \<^verbatim>\<open>for (let i = 0; i < length; i++) result += charset.charAt(...)\<close>;
  the \<open>i\<close>-th pass makes the \<open>i\<close>-th call of \<^verbatim>\<open>Math.random\<close>.
\<close>

definition random_from :: "string \<Rightarrow> runtime \<Rightarrow> nat \<Rightarrow> string" where
  "random_from charset rt n =
     foldl (\<lambda>result i.
              result @ charAt charset (Math_floor_times (Math_random rt i) (length charset)))
       [] [0..<n]"

definition generateRandomString :: "runtime \<Rightarrow> nat \<Rightarrow> string" where
  "generateRandomString rt n = random_from random_charset rt n"

definition generateSecureApiKey :: "runtime \<Rightarrow> string" where
  "generateSecureApiKey rt = random_from api_key_charset rt 64"

text \<open>
  \<^verbatim>\<open>encodeURIComponent\<close> on a string held as its UTF-8 bytes: every byte outside
  the unreserved set becomes \<^verbatim>\<open>%XX\<close>.
\<close>

definition uri_unreserved :: string where
  "uri_unreserved = random_charset @ ''-_.!~*'()''"

definition hex_digit :: "nat \<Rightarrow> char" where
  "hex_digit n = ''0123456789ABCDEF'' ! (n mod 16)"

definition encode_byte :: "char \<Rightarrow> string" where
  "encode_byte c =
     (if c \<in> set uri_unreserved then [c]
      else [CHR ''%'', hex_digit (of_char c div 16), hex_digit (of_char c)])"

definition encodeURIComponent :: "string \<Rightarrow> string" where
  "encodeURIComponent s = concat (map encode_byte s)"

subsection \<open>The URL parser behind a redirect\<close>

text \<open>
  \<^verbatim>\<open>Response.redirect(url, status)\<close> parses the string as a URL and puts the
  serialised URL into the \<^verbatim>\<open>Location\<close> header. Both callers pass a serialised
  http(s) origin and path, followed at most by a query. On such a string the parser
  strips leading and trailing C0 controls and spaces, removes every tab and newline,
  percent-encodes the bytes of the query (which ends at the first \<^verbatim>\<open>#\<close>) that are in
  the special-query set and the bytes of the fragment that are in the fragment set,
  and leaves the rest as it is.
\<close>

definition c0_control_or_space :: "char \<Rightarrow> bool" where
  "c0_control_or_space c = ((of_char c :: nat) \<le> 32)"

definition tab_or_newline :: "char \<Rightarrow> bool" where
  "tab_or_newline c = ((of_char c :: nat) \<in> {9, 10, 13})"

definition c0_control_percent_encode_set :: "char \<Rightarrow> bool" where
  "c0_control_percent_encode_set c = ((of_char c :: nat) < 32 \<or> 126 < (of_char c :: nat))"

text \<open>Space, double quote, \<^verbatim>\<open><\<close>, \<^verbatim>\<open>>\<close> and the backquote, besides the controls.\<close>

definition fragment_percent_encode_set :: "char \<Rightarrow> bool" where
  "fragment_percent_encode_set c =
     (c0_control_percent_encode_set c \<or> (of_char c :: nat) \<in> {32, 34, 60, 62, 96})"

text \<open>
  Space, double quote, \<^verbatim>\<open>#\<close>, \<^verbatim>\<open><\<close>, \<^verbatim>\<open>>\<close> and, the scheme being special, the
  apostrophe, besides the controls.
\<close>

definition special_query_percent_encode_set :: "char \<Rightarrow> bool" where
  "special_query_percent_encode_set c =
     (c0_control_percent_encode_set c \<or> (of_char c :: nat) \<in> {32, 34, 35, 60, 62, 39})"

definition percent_encode :: "(char \<Rightarrow> bool) \<Rightarrow> string \<Rightarrow> string" where
  "percent_encode encode_set s =
     concat (map (\<lambda>c. if encode_set c
                          then [CHR ''%'', hex_digit (of_char c div 16), hex_digit (of_char c)]
                          else [c]) s)"

definition URL_href :: "string \<Rightarrow> string" where
  "URL_href input =
     (let stripped = rev (dropWhile c0_control_or_space
                            (rev (dropWhile c0_control_or_space input)));
          s = filter (\<lambda>c. \<not> tab_or_newline c) stripped;
          before = takeWhile (\<lambda>c. c \<noteq> CHR ''?'' \<and> c \<noteq> CHR ''#'') s;
          fragment_of = (\<lambda>f. CHR ''#'' # percent_encode fragment_percent_encode_set f)
      in case dropWhile (\<lambda>c. c \<noteq> CHR ''?'' \<and> c \<noteq> CHR ''#'') s of
           [] \<Rightarrow> before
         | c # r \<Rightarrow>
             if c = CHR ''?''
             then before @ CHR ''?'' #
                    percent_encode special_query_percent_encode_set
                      (takeWhile (\<lambda>c. c \<noteq> CHR ''#'') r) @
                    (case dropWhile (\<lambda>c. c \<noteq> CHR ''#'') r of
                       [] \<Rightarrow> []
                     | h # f \<Rightarrow> fragment_of f)
             else before @ fragment_of r)"

definition Response_redirect :: "string \<Rightarrow> nat \<Rightarrow> exn + response" where
  "Response_redirect url s =
     Inr \<lparr>status = s, headers = [(''Location'', URL_href url)], body = NoBody\<rparr>"

section \<open>Authentication helper\<close>

text \<open>The bodies \<^verbatim>\<open>JSON.stringify({ error: ... })\<close> of the gate, written out.\<close>

definition missing_header_body :: string where
  \<open>missing_header_body =
     ''{"error":"Missing Authorization header. Include 'Authorization: Bearer YOUR_API_KEY' in your request."}''\<close>

definition invalid_format_body :: string where
  \<open>invalid_format_body =
     ''{"error":"Invalid Authorization header format. Use 'Authorization: Bearer YOUR_API_KEY'."}''\<close>

definition not_configured_body :: string where
  \<open>not_configured_body =
     ''{"error":"API key not configured. Please set up via Cloudflare dashboard."}''\<close>

definition invalid_key_body :: string where
  \<open>invalid_key_body = ''{"error":"Invalid API key."}''\<close>

definition json_response :: "nat \<Rightarrow> string \<Rightarrow> response" where
  "json_response s b = \<lparr>status = s, headers = json_headers, body = Text b\<rparr>"

text \<open>
  \<open>requireApiKey\<close> returns the response that ends the request, or \<open>None\<close> (null)
  when the request may proceed. The checks are in the order of the source: header
  present, header format, key configured, key equal.
\<close>

definition requireApiKey :: "request \<Rightarrow> Env \<Rightarrow> response option" where
  "requireApiKey req env =
     (case Authorization req of
        None \<Rightarrow> Some (json_response 401 missing_header_body)
      | Some authHeader \<Rightarrow>
          if authHeader = [] then Some (json_response 401 missing_header_body)
          else if \<not> prefix ''Bearer '' authHeader
            then Some (json_response 401 invalid_format_body)
          else
            let providedApiKey = drop 7 authHeader in
            if \<not> truthy_string (API_KEY env)
              then Some (json_response 500 not_configured_body)
            else if Some providedApiKey \<noteq> API_KEY env
              then Some (json_response 401 invalid_key_body)
            else None)"

section \<open>Stored tokens and upstream calls\<close>

text \<open>
  \<open>getStoredTokens\<close>: \<open>JNull\<close> is the source's null; a stored string that does not
  parse makes \<^verbatim>\<open>JSON.parse\<close> throw.
\<close>

definition getStoredTokens :: "runtime \<Rightarrow> world \<Rightarrow> (exn + json) \<times> world" where
  "getStoredTokens rt w =
     (case kv_get ''spotify_tokens'' w of
        (tokensJson, w1) \<Rightarrow>
          if truthy_string tokensJson
          then (case JSON_parse rt (template tokensJson) of
                  None \<Rightarrow> (Inl SyntaxError, w1)
                | Some j \<Rightarrow> (Inr j, w1))
          else (Inr JNull, w1))"

definition callSpotifyAPI ::
  "runtime \<Rightarrow> string \<Rightarrow> json option \<Rightarrow> world \<Rightarrow> upstream_response \<times> world" where
  "callSpotifyAPI rt endpoint accessToken w =
     global_fetch rt
       \<lparr>u_url = ''https://api.spotify.com'' @ endpoint,
        u_method = ''GET'',
        u_content_type = ''application/json'',
        u_authorization = Bearer_of accessToken,
        u_body = []\<rparr> w"

datatype token_result = Success json | Failure string

definition token_request :: "Env \<Rightarrow> string \<Rightarrow> string \<Rightarrow> upstream_request" where
  "token_request env code redirectUri =
     \<lparr>u_url = ''https://accounts.spotify.com/api/token'',
      u_method = ''POST'',
      u_content_type = ''application/x-www-form-urlencoded'',
      u_authorization =
        Basic_btoa (template (SPOTIFY_CLIENT_ID env) @ '':'' @ template (SPOTIFY_CLIENT_SECRET env)),
      u_body =
        [(''grant_type'', ''authorization_code''),
         (''code'', code),
         (''redirect_uri'', redirectUri)]\<rparr>"

text \<open>
  \<open>exchangeCodeForTokens\<close> takes the origin of the callback URL. Without
  credentials it fails before any request is made.
\<close>

definition exchangeCodeForTokens ::
  "runtime \<Rightarrow> string \<Rightarrow> string \<Rightarrow> Env \<Rightarrow> world \<Rightarrow> (exn + token_result) \<times> world" where
  "exchangeCodeForTokens rt code callbackOrigin env w =
     (let redirectUri = callbackOrigin @ ''/callback'' in
      if \<not> truthy_string (SPOTIFY_CLIENT_ID env) \<or> \<not> truthy_string (SPOTIFY_CLIENT_SECRET env)
      then (Inr (Failure ''No Spotify credentials configured. Please complete setup first.''), w)
      else
        (case global_fetch rt (token_request env code redirectUri) w of
           (response, w1) \<Rightarrow>
             if \<not> ok response
             then (Inr (Failure (''Token exchange failed: '' @ u_statusText response)), w1)
             else (case u_json response of
                     None \<Rightarrow> (Inl SyntaxError, w1)
                   | Some data \<Rightarrow> (Inr (Success data), w1))))"

section \<open>Handlers\<close>

definition has_credentials :: "Env \<Rightarrow> bool" where
  "has_credentials env =
     (truthy_string (SPOTIFY_CLIENT_ID env) \<and> truthy_string (SPOTIFY_CLIENT_SECRET env))"

definition handleRoot :: "runtime \<Rightarrow> Env \<Rightarrow> request \<Rightarrow> world \<Rightarrow> (exn + response) \<times> world" where
  "handleRoot rt env req w =
     (let hasApiKey = truthy_string (API_KEY env);
          hasSpotifyCredentials = has_credentials env
      in case getStoredTokens rt w of
           (Inl e, w1) \<Rightarrow> (Inl e, w1)
         | (Inr storedTokens, w1) \<Rightarrow>
             if \<not> hasApiKey \<or> \<not> hasSpotifyCredentials
             then (Response_redirect (origin req @ ''/credentials'') 302, w1)
             else
               (new_Response
                  (Page (if hasSpotifyCredentials
                         then (if truthy storedTokens
                               then RootPage ''complete'' ''/now-playing'' ''View Now Playing''
                               else RootPage ''credentials_only'' ''/setup''
                                      ''Connect Spotify Account'')
                         else RootPage ''not_started'' ''/credentials'' ''Setup Credentials''))
                  200 html_headers, w1))"

definition setup_scope :: string where
  "setup_scope =
     ''user-read-currently-playing user-read-recently-played user-read-playback-state''"

definition state_key :: "string \<Rightarrow> string" where
  "state_key state = ''oauth_state_'' @ state"

definition authUrl :: "Env \<Rightarrow> string \<Rightarrow> string \<Rightarrow> string" where
  "authUrl env redirectUri state =
     ''https://accounts.spotify.com/authorize?'' @
     ''response_type=code&'' @
     ''client_id='' @ template (SPOTIFY_CLIENT_ID env) @ ''&'' @
     ''scope='' @ encodeURIComponent setup_scope @ ''&'' @
     ''redirect_uri='' @ encodeURIComponent redirectUri @ ''&'' @
     ''state='' @ state"

definition handleSetup :: "runtime \<Rightarrow> Env \<Rightarrow> request \<Rightarrow> world \<Rightarrow> (exn + response) \<times> world" where
  "handleSetup rt env req w =
     (if \<not> has_credentials env
      then (Response_redirect (origin req @ ''/credentials'') 302, w)
      else if http_method req = ''POST''
      then
        (let redirectUri = origin req @ ''/callback'';
             state = generateRandomString rt 16;
             w1 = kv_put (state_key state) ''pending'' (Some 600) w
         in (Response_redirect (authUrl env redirectUri state) 302, w1))
      else (new_Response (Page SetupPage) 200 html_headers, w))"

definition handleCredentials ::
  "runtime \<Rightarrow> Env \<Rightarrow> request \<Rightarrow> world \<Rightarrow> (exn + response) \<times> world" where
  "handleCredentials rt env req w =
     (new_Response (Page (CredentialsPage (origin req) (generateSecureApiKey rt)))
        200 html_headers, w)"

definition handleCallback ::
  "runtime \<Rightarrow> Env \<Rightarrow> request \<Rightarrow> world \<Rightarrow> (exn + response) \<times> world" where
  "handleCallback rt env req w =
     (let code = searchParams_get req ''code'';
          state = searchParams_get req ''state'';
          error = searchParams_get req ''error''
      in
      if truthy_string error
      then (new_Response (Text (''OAuth Error: '' @ template error)) 400 [], w)
      else if \<not> truthy_string code \<or> \<not> truthy_string state
      then (new_Response (Text ''Missing authorization code or state'') 400 [], w)
      else
        (case kv_get (state_key (template state)) w of
           (storedState, w1) \<Rightarrow>
             if \<not> truthy_string storedState
             then (new_Response (Text ''Invalid or expired state parameter'') 400 [], w1)
             else
               (case exchangeCodeForTokens rt (template code) (origin req) env w1 of
                  (Inl e, w2) \<Rightarrow> (Inl e, w2)
                | (Inr (Failure err), w2) \<Rightarrow>
                    (new_Response (Text (''Token exchange failed: '' @ err)) 400 [], w2)
                | (Inr (Success data), w2) \<Rightarrow>
                    (let w3 = kv_put ''spotify_tokens'' (JSON_stringify rt data 0) (Some 3600) w2;
                         w4 = kv_delete (state_key (template state)) w3
                     in (new_Response (Page OAuthSuccessPage) 200 html_headers, w4)))))"

definition no_tokens_body :: string where
  \<open>no_tokens_body =
     ''{"error":"No valid tokens found. Please complete OAuth setup first."}''\<close>

definition not_playing_body :: string where
  \<open>not_playing_body = ''{"playing":false,"message":"No track currently playing"}''\<close>

definition fetch_track_failed_body :: string where
  \<open>fetch_track_failed_body = ''{"error":"Failed to fetch current track"}''\<close>

definition fetch_recent_failed_body :: string where
  \<open>fetch_recent_failed_body = ''{"error":"Failed to fetch recent tracks"}''\<close>

text \<open>The relay \<^verbatim>\<open>JSON.stringify(await spotifyResponse.json())\<close> of both data handlers.\<close>

definition relay_json :: "runtime \<Rightarrow> upstream_response \<Rightarrow> exn + response" where
  "relay_json rt r =
     (case u_json r of
        None \<Rightarrow> Inl SyntaxError
      | Some data \<Rightarrow> new_Response (Text (JSON_stringify rt data 0)) 200 json_headers)"

definition handleNowPlaying ::
  "runtime \<Rightarrow> Env \<Rightarrow> request \<Rightarrow> world \<Rightarrow> (exn + response) \<times> world" where
  "handleNowPlaying rt env req w =
     (case getStoredTokens rt w of
        (Inl e, w1) \<Rightarrow> (Inl e, w1)
      | (Inr tokens, w1) \<Rightarrow>
          if \<not> truthy tokens
          then (new_Response (Text no_tokens_body) 401 json_headers, w1)
          else
            (case callSpotifyAPI rt ''/v1/me/player/currently-playing'' (access_token tokens) w1 of
               (spotifyResponse, w2) \<Rightarrow>
                 if u_status spotifyResponse = 204
                 then (new_Response (Text not_playing_body) 200 json_headers, w2)
                 else if \<not> ok spotifyResponse
                 then (new_Response (Text fetch_track_failed_body)
                         (u_status spotifyResponse) json_headers, w2)
                 else (relay_json rt spotifyResponse, w2)))"

definition handleRecent ::
  "runtime \<Rightarrow> Env \<Rightarrow> request \<Rightarrow> world \<Rightarrow> (exn + response) \<times> world" where
  "handleRecent rt env req w =
     (case getStoredTokens rt w of
        (Inl e, w1) \<Rightarrow> (Inl e, w1)
      | (Inr tokens, w1) \<Rightarrow>
          if \<not> truthy tokens
          then (new_Response (Text no_tokens_body) 401 json_headers, w1)
          else
            (case callSpotifyAPI rt ''/v1/me/player/recently-played?limit=10''
                    (access_token tokens) w1 of
               (spotifyResponse, w2) \<Rightarrow>
                 if \<not> ok spotifyResponse
                 then (new_Response (Text fetch_recent_failed_body)
                         (u_status spotifyResponse) json_headers, w2)
                 else (relay_json rt spotifyResponse, w2)))"

definition health_endpoints :: json where
  "health_endpoints =
     JObj [(''home'', JStr ''/''),
           (''credentials'', JStr ''/credentials''),
           (''setup'', JStr ''/setup''),
           (''callback'', JStr ''/callback''),
           (''now_playing'', JStr ''/now-playing''),
           (''recent'', JStr ''/recent''),
           (''health'', JStr ''/health'')]"

definition handleHealth ::
  "runtime \<Rightarrow> Env \<Rightarrow> request \<Rightarrow> world \<Rightarrow> (exn + response) \<times> world" where
  "handleHealth rt env req w =
     (case getStoredTokens rt w of
        (Inl e, w1) \<Rightarrow> (Inl e, w1)
      | (Inr tokens, w1) \<Rightarrow>
          (let hasValidCredentials = has_credentials env;
               hasValidTokens = (tokens \<noteq> JNull);
               hasApiKey = truthy_string (API_KEY env);
               health =
                 JObj [(''status'', JStr ''healthy''),
                       (''timestamp'', JStr (Date_toISOString rt)),
                       (''environment'',
                          JStr (if truthy_string (ENVIRONMENT env)
                                then template (ENVIRONMENT env) else ''unknown'')),
                       (''api_key_configured'', JBool hasApiKey),
                       (''credentials_configured'', JBool hasValidCredentials),
                       (''oauth_configured'', JBool hasValidTokens),
                       (''setup_complete'',
                          JBool (hasApiKey \<and> hasValidCredentials \<and> hasValidTokens)),
                       (''next_step'',
                          JStr (if \<not> hasApiKey
                                then ''Configure secrets (API key + Spotify credentials) at /credentials''
                                else if \<not> hasValidCredentials
                                then ''Configure Spotify credentials at /credentials''
                                else if \<not> hasValidTokens
                                then ''Complete OAuth setup at /setup''
                                else ''Ready to use API endpoints'')),
                       (''endpoints'', health_endpoints)]
           in (new_Response (Text (JSON_stringify rt health 2)) 200 json_headers, w1)))"

section \<open>The worker's entry point\<close>

definition publicEndpoints :: "string list" where
  "publicEndpoints = [''/health'', ''/credentials'', ''/setup'', ''/callback'']"

text \<open>The \<^verbatim>\<open>switch (pathname)\<close> of the entry point.\<close>

definition route :: "runtime \<Rightarrow> Env \<Rightarrow> request \<Rightarrow> world \<Rightarrow> (exn + response) \<times> world" where
  "route rt env req w =
     (if pathname req = ''/'' then handleRoot rt env req w
      else if pathname req = ''/setup'' then handleSetup rt env req w
      else if pathname req = ''/credentials'' then handleCredentials rt env req w
      else if pathname req = ''/callback'' then handleCallback rt env req w
      else if pathname req = ''/now-playing'' then handleNowPlaying rt env req w
      else if pathname req = ''/recent'' then handleRecent rt env req w
      else if pathname req = ''/health'' then handleHealth rt env req w
      else (new_Response (Text ''Not Found'') 404 corsHeaders, w))"

text \<open>
  \<open>fetch\<close> is the exported handler. Inside its \<^verbatim>\<open>try\<close> only \<open>requireApiKey\<close> is
  awaited, and it never throws, so the \<^verbatim>\<open>catch\<close> branch has no run; a handler's
  promise is returned without \<^verbatim>\<open>await\<close>, so its rejection leaves \<open>fetch\<close> as the
  result \<open>Inl\<close>.
\<close>

definition fetch :: "runtime \<Rightarrow> Env \<Rightarrow> request \<Rightarrow> world \<Rightarrow> (exn + response) \<times> world" where
  "fetch rt env req w =
     (if http_method req = ''OPTIONS''
      then (Inr \<lparr>status = 200, headers = corsHeaders, body = NoBody\<rparr>, w)
      else
        (case (if pathname req \<notin> set publicEndpoints then requireApiKey req env else None) of
           Some authResult \<Rightarrow> (Inr authResult, w)
         | None \<Rightarrow> route rt env req w))"

section \<open>Observing a run\<close>

text \<open>The platform calls a run from \<open>w\<close> to \<open>w'\<close> has made, oldest first.\<close>

definition events_of :: "world \<Rightarrow> world \<Rightarrow> event list" where
  "events_of w w' = drop (length (trace w)) (trace w')"

text \<open>The store operations on one key.\<close>

fun touches :: "string \<Rightarrow> event \<Rightarrow> bool" where
  "touches k (KVGet k') = (k = k')"
| "touches k (KVPut k' v ttl) = (k = k')"
| "touches k (KVDelete k') = (k = k')"
| "touches k (Fetch rq rs) = False"

definition alphanumeric :: "char \<Rightarrow> bool" where
  "alphanumeric c =
     (let n = (of_char c :: nat)
      in (48 \<le> n \<and> n \<le> 57) \<or> (65 \<le> n \<and> n \<le> 90) \<or> (97 \<le> n \<and> n \<le> 122))"

text \<open>The member \<^verbatim>\<open>playing: false\<close> of a serialised JSON object.\<close>

definition playing_false :: string where
  \<open>playing_false = ''"playing":false''\<close>

section \<open>Example inputs\<close>

definition example_tokens :: json where
  "example_tokens = JObj [(''access_token'', JStr ''tok''), (''refresh_token'', JStr ''ref'')]"

definition example_tokens_text :: string where
  \<open>example_tokens_text = ''{"access_token":"tok","refresh_token":"ref"}''\<close>

definition token_granted :: upstream_response where
  "token_granted = \<lparr>u_status = 200, u_statusText = ''OK'', u_json = Some example_tokens\<rparr>"

definition token_rejected :: upstream_response where
  "token_rejected =
     \<lparr>u_status = 400, u_statusText = ''Bad Request'',
      u_json = Some (JObj [(''error'', JStr ''invalid_grant'')])\<rparr>"

definition nothing_playing :: upstream_response where
  "nothing_playing = \<lparr>u_status = 204, u_statusText = ''No Content'', u_json = None\<rparr>"

definition token_unparsable :: upstream_response where
  "token_unparsable = \<lparr>u_status = 200, u_statusText = ''OK'', u_json = None\<rparr>"

text \<open>A platform whose upstream gives one fixed answer and whose random draws are all 1/2.\<close>

definition example_runtime :: "upstream_response \<Rightarrow> runtime" where
  "example_runtime answer =
     \<lparr>upstream = (\<lambda>rq. answer),
      Math_random = (\<lambda>i. \<lparr>significand = 1, shift = 1\<rparr>),
      JSON_parse = (\<lambda>s. if s = example_tokens_text then Some example_tokens else None),
      JSON_stringify = (\<lambda>j n. if j = example_tokens then example_tokens_text else ''null''),
      Date_toISOString = ''2024-01-01T00:00:00.000Z''\<rparr>"

definition example_env :: Env where
  "example_env =
     \<lparr>SPOTIFY_CLIENT_ID = Some ''client'', SPOTIFY_CLIENT_SECRET = Some ''secret'',
      API_KEY = Some ''key'', ENVIRONMENT = None\<rparr>"

definition example_callback :: request where
  "example_callback =
     \<lparr>http_method = ''GET'', origin = ''https://proxy.example'', pathname = ''/callback'',
      searchParams = [(''code'', ''c1''), (''state'', ''s1'')], Authorization = None\<rparr>"

definition example_setup :: request where
  "example_setup =
     \<lparr>http_method = ''POST'', origin = ''https://proxy.example'', pathname = ''/setup'',
      searchParams = [], Authorization = None\<rparr>"

definition example_now_playing :: request where
  "example_now_playing =
     \<lparr>http_method = ''GET'', origin = ''https://proxy.example'', pathname = ''/now-playing'',
      searchParams = [], Authorization = Some ''Bearer key''\<rparr>"

definition empty_world :: world where
  "empty_world = \<lparr>SPOTIFY_DATA = Map.empty, trace = []\<rparr>"

definition pending_world :: world where
  "pending_world =
     \<lparr>SPOTIFY_DATA =
        [''oauth_state_s1'' \<mapsto> \<lparr>kv_value = ''pending'', expirationTtl = Some 600\<rparr>],
      trace = []\<rparr>"

definition relabelled_world :: world where
  "relabelled_world =
     \<lparr>SPOTIFY_DATA =
        [''oauth_state_s1'' \<mapsto> \<lparr>kv_value = ''anything'', expirationTtl = None\<rparr>],
      trace = []\<rparr>"

definition authorized_world :: world where
  "authorized_world =
     \<lparr>SPOTIFY_DATA =
        [''spotify_tokens'' \<mapsto> \<lparr>kv_value = example_tokens_text, expirationTtl = Some 3600\<rparr>],
      trace = []\<rparr>"


section \<open>The OAuth callback\<close>

lemmas callback_defs =
  fetch_def publicEndpoints_def route_def handleCallback_def kv_get_def kv_put_def
  kv_delete_def exchangeCodeForTokens_def global_fetch_def new_Response_def
  truthy_string_def template_def events_of_def Let_def

lemmas example_defs =
  example_runtime_def example_env_def example_callback_def example_setup_def
  example_now_playing_def empty_world_def pending_world_def relabelled_world_def
  authorized_world_def
  token_granted_def token_rejected_def token_unparsable_def nothing_playing_def
  searchParams_get_def
  state_key_def token_request_def ok_def html_headers_def json_headers_def

text \<open>The example runs of the callback, evaluated once.\<close>

lemma run_unknown_state:
  "fetch (example_runtime token_granted) example_env example_callback empty_world =
     (Inr \<lparr>status = 400, headers = [], body = Text ''Invalid or expired state parameter''\<rparr>,
      \<lparr>SPOTIFY_DATA = Map.empty, trace = [KVGet ''oauth_state_s1'']\<rparr>)"
  by (simp add: callback_defs example_defs)

lemma run_granted:
  "fetch (example_runtime token_granted) example_env example_callback pending_world =
     (Inr \<lparr>status = 200, headers = html_headers, body = Page OAuthSuccessPage\<rparr>,
      \<lparr>SPOTIFY_DATA =
         (SPOTIFY_DATA pending_world)
           (''spotify_tokens'' \<mapsto> \<lparr>kv_value = example_tokens_text, expirationTtl = Some 3600\<rparr>,
            ''oauth_state_s1'' := None),
       trace =
         [KVGet ''oauth_state_s1'',
          Fetch (token_request example_env ''c1'' ''https://proxy.example/callback'') token_granted,
          KVPut ''spotify_tokens'' example_tokens_text (Some 3600),
          KVDelete ''oauth_state_s1'']\<rparr>)"
  by (simp add: callback_defs example_defs)

lemma run_rejected:
  "fetch (example_runtime token_rejected) example_env example_callback pending_world =
     (Inr \<lparr>status = 400, headers = [],
           body = Text ''Token exchange failed: Token exchange failed: Bad Request''\<rparr>,
      \<lparr>SPOTIFY_DATA = SPOTIFY_DATA pending_world,
       trace =
         [KVGet ''oauth_state_s1'',
          Fetch (token_request example_env ''c1'' ''https://proxy.example/callback'')
            token_rejected]\<rparr>)"
  by (simp add: callback_defs example_defs)

lemma run_unparsable:
  "fetch (example_runtime token_unparsable) example_env example_callback pending_world =
     (Inl SyntaxError,
      \<lparr>SPOTIFY_DATA = SPOTIFY_DATA pending_world,
       trace =
         [KVGet ''oauth_state_s1'',
          Fetch (token_request example_env ''c1'' ''https://proxy.example/callback'')
            token_unparsable]\<rparr>)"
  by (simp add: callback_defs example_defs)

lemma run_granted_relabelled:
  "fetch (example_runtime token_granted) example_env example_callback relabelled_world =
     (Inr \<lparr>status = 200, headers = html_headers, body = Page OAuthSuccessPage\<rparr>,
      \<lparr>SPOTIFY_DATA =
         (SPOTIFY_DATA relabelled_world)
           (''spotify_tokens'' \<mapsto> \<lparr>kv_value = example_tokens_text, expirationTtl = Some 3600\<rparr>,
            ''oauth_state_s1'' := None),
       trace =
         [KVGet ''oauth_state_s1'',
          Fetch (token_request example_env ''c1'' ''https://proxy.example/callback'') token_granted,
          KVPut ''spotify_tokens'' example_tokens_text (Some 3600),
          KVDelete ''oauth_state_s1'']\<rparr>)"
  by (simp add: callback_defs example_defs)

lemma example_callback_facts:
  "http_method example_callback = ''GET''"
  "pathname example_callback = ''/callback''"
  "origin example_callback = ''https://proxy.example''"
  "searchParams_get example_callback ''code'' = Some ''c1''"
  "searchParams_get example_callback ''state'' = Some ''s1''"
  "state_key ''s1'' = ''oauth_state_s1''"
  by (simp_all add: example_callback_def searchParams_get_def state_key_def)

lemma example_world_facts:
  "SPOTIFY_DATA empty_world = Map.empty"
  "trace empty_world = []"
  "SPOTIFY_DATA pending_world ''oauth_state_s1'' =
     Some \<lparr>kv_value = ''pending'', expirationTtl = Some 600\<rparr>"
  "trace pending_world = []"
  "SPOTIFY_DATA relabelled_world ''oauth_state_s1'' =
     Some \<lparr>kv_value = ''anything'', expirationTtl = None\<rparr>"
  "trace relabelled_world = []"
  by (simp_all add: empty_world_def pending_world_def relabelled_world_def)

lemma example_answer_facts:
  "ok token_granted" "u_json token_granted = Some example_tokens"
  "\<not> ok token_rejected" "u_statusText token_rejected = ''Bad Request''"
  by (simp_all add: token_granted_def token_rejected_def ok_def)

lemmas example_facts =
  example_callback_facts example_world_facts example_answer_facts events_of_def kv_get_def

lemma example_stringify:
  "JSON_stringify (example_runtime answer) example_tokens 0 = example_tokens_text"
  by (simp add: example_runtime_def)

text \<open>
  C1. A GET request to \<^verbatim>\<open>/callback\<close> whose \<open>state\<close> parameter names no stored key
  \<open>oauth_state_<state>\<close> (or that has no such parameter) is answered 400; the run
  leaves the store as it was, and the only platform calls it can have made are reads
  of the store: no request to the token endpoint, no write, no delete.
\<close>

theorem callback_unknown_state_rejected:
  assumes "http_method req = ''GET''" and "pathname req = ''/callback''"
    and "\<forall>s. searchParams_get req ''state'' = Some s \<longrightarrow> SPOTIFY_DATA w (state_key s) = None"
  shows "\<exists>r w'. fetch rt env req w = (Inr r, w') \<and> status r = 400
           \<and> SPOTIFY_DATA w' = SPOTIFY_DATA w
           \<and> (\<forall>e \<in> set (events_of w w'). \<exists>k. e = KVGet k)"
  using assms
  by (auto simp: callback_defs split: option.splits)

theorem callback_unknown_state_rejected_witness:
  "searchParams_get example_callback ''state'' = Some ''s1''
   \<and> SPOTIFY_DATA empty_world (state_key ''s1'') = None
   \<and> (\<exists>r w'. fetch (example_runtime token_granted) example_env example_callback empty_world =
                 (Inr r, w')
          \<and> status r = 400 \<and> SPOTIFY_DATA w' = SPOTIFY_DATA empty_world
          \<and> events_of empty_world w' = [KVGet ''oauth_state_s1''])"
proof -
  have absent: "\<forall>s. searchParams_get example_callback ''state'' = Some s
                  \<longrightarrow> SPOTIFY_DATA empty_world (state_key s) = None"
    by (simp add: example_world_facts)
  from callback_unknown_state_rejected
         [OF example_callback_facts(1,2) absent, of "example_runtime token_granted" example_env]
  show ?thesis
    by (auto simp: run_unknown_state events_of_def example_callback_facts example_world_facts)
qed

lemma state_key_not_tokens: "state_key state \<noteq> ''spotify_tokens''"
  by (simp add: state_key_def)

lemma callback_success_run:
  assumes "http_method req = ''GET''" and "pathname req = ''/callback''"
    and "searchParams_get req ''code'' = Some code"
    and "searchParams_get req ''state'' = Some state"
    and "SPOTIFY_DATA w (state_key state) \<noteq> None"
  shows "case fetch rt env req w of (res, w') \<Rightarrow>
           (\<forall>rq rs payload.
              Fetch rq rs \<in> set (events_of w w') \<and> ok rs \<and> u_json rs = Some payload \<longrightarrow>
              rq = token_request env code (origin req @ ''/callback'')
              \<and> events_of w w' =
                  [KVGet (state_key state), Fetch rq rs,
                   KVPut ''spotify_tokens'' (JSON_stringify rt payload 0) (Some 3600),
                   KVDelete (state_key state)]
              \<and> SPOTIFY_DATA w' =
                  (SPOTIFY_DATA w)
                    (''spotify_tokens'' \<mapsto>
                       \<lparr>kv_value = JSON_stringify rt payload 0, expirationTtl = Some 3600\<rparr>,
                     state_key state := None))"
  using assms
  by (clarsimp simp: callback_defs
        split: option.split prod.split sum.split token_result.split; auto)

text \<open>
  C2, as the source has it. When a GET request to \<^verbatim>\<open>/callback\<close> carries \<open>code\<close> and
  \<open>state\<close>, the state key is in the store, and the run's request to the token
  endpoint is answered 2xx with a body that parses as JSON, the run reads the state
  key, posts the code, writes the serialised payload under \<open>spotify_tokens\<close> with a
  3600-second expiry and then deletes the state key. Afterwards \<open>spotify_tokens\<close>
  holds that record (whatever it held before), the state key is absent, and no other
  key has changed.
\<close>

theorem callback_success_stores_tokens:
  assumes "http_method req = ''GET''" and "pathname req = ''/callback''"
    and "searchParams_get req ''code'' = Some code"
    and "searchParams_get req ''state'' = Some state"
    and "SPOTIFY_DATA w (state_key state) \<noteq> None"
    and "fetch rt env req w = (res, w')"
    and "Fetch rq rs \<in> set (events_of w w')" and "ok rs" and "u_json rs = Some payload"
  shows "rq = token_request env code (origin req @ ''/callback'')
         \<and> events_of w w' =
             [KVGet (state_key state), Fetch rq rs,
              KVPut ''spotify_tokens'' (JSON_stringify rt payload 0) (Some 3600),
              KVDelete (state_key state)]
         \<and> SPOTIFY_DATA w' =
             (SPOTIFY_DATA w)
               (''spotify_tokens'' \<mapsto>
                  \<lparr>kv_value = JSON_stringify rt payload 0, expirationTtl = Some 3600\<rparr>,
                state_key state := None)
         \<and> SPOTIFY_DATA w' ''spotify_tokens'' =
             Some \<lparr>kv_value = JSON_stringify rt payload 0, expirationTtl = Some 3600\<rparr>
         \<and> SPOTIFY_DATA w' (state_key state) = None"
proof -
  from callback_success_run [OF assms(1-5), where rt = rt and env = env]
  have "\<forall>rq rs payload.
          Fetch rq rs \<in> set (events_of w w') \<and> ok rs \<and> u_json rs = Some payload \<longrightarrow>
          rq = token_request env code (origin req @ ''/callback'')
          \<and> events_of w w' =
              [KVGet (state_key state), Fetch rq rs,
               KVPut ''spotify_tokens'' (JSON_stringify rt payload 0) (Some 3600),
               KVDelete (state_key state)]
          \<and> SPOTIFY_DATA w' =
              (SPOTIFY_DATA w)
                (''spotify_tokens'' \<mapsto>
                   \<lparr>kv_value = JSON_stringify rt payload 0, expirationTtl = Some 3600\<rparr>,
                 state_key state := None)"
    by (simp only: assms(6) prod.case)
  with assms(7-9) have run:
    "rq = token_request env code (origin req @ ''/callback'')
     \<and> events_of w w' =
         [KVGet (state_key state), Fetch rq rs,
          KVPut ''spotify_tokens'' (JSON_stringify rt payload 0) (Some 3600),
          KVDelete (state_key state)]
     \<and> SPOTIFY_DATA w' =
         (SPOTIFY_DATA w)
           (''spotify_tokens'' \<mapsto>
              \<lparr>kv_value = JSON_stringify rt payload 0, expirationTtl = Some 3600\<rparr>,
            state_key state := None)"
    by blast
  then have "SPOTIFY_DATA w' ''spotify_tokens'' =
               Some \<lparr>kv_value = JSON_stringify rt payload 0, expirationTtl = Some 3600\<rparr>"
    and "SPOTIFY_DATA w' (state_key state) = None"
    using state_key_not_tokens [of state] by simp_all
  with run show ?thesis by blast
qed

theorem callback_success_stores_tokens_witness:
  "SPOTIFY_DATA pending_world (state_key ''s1'') \<noteq> None
   \<and> ok token_granted \<and> u_json token_granted = Some example_tokens
   \<and> Fetch (token_request example_env ''c1'' ''https://proxy.example/callback'') token_granted
       \<in> set (events_of pending_world
                (snd (fetch (example_runtime token_granted) example_env example_callback
                        pending_world)))
   \<and> SPOTIFY_DATA
        (snd (fetch (example_runtime token_granted) example_env example_callback pending_world))
        ''spotify_tokens'' =
       Some \<lparr>kv_value = example_tokens_text, expirationTtl = Some 3600\<rparr>
   \<and> SPOTIFY_DATA
        (snd (fetch (example_runtime token_granted) example_env example_callback pending_world))
        ''oauth_state_s1'' = None"
proof -
  let ?run = "fetch (example_runtime token_granted) example_env example_callback pending_world"
  let ?rq = "token_request example_env ''c1'' ''https://proxy.example/callback''"
  have present: "SPOTIFY_DATA pending_world (state_key ''s1'') \<noteq> None"
    by (simp add: example_callback_facts example_world_facts)
  have run: "?run = (fst ?run, snd ?run)" by simp
  have posted: "Fetch ?rq token_granted \<in> set (events_of pending_world (snd ?run))"
    by (simp add: run_granted events_of_def example_world_facts)
  note stored =
    callback_success_stores_tokens
      [OF example_callback_facts(1,2,4,5) present run posted example_answer_facts(1,2)]
  from stored have
    "SPOTIFY_DATA (snd ?run) ''spotify_tokens'' =
       Some \<lparr>kv_value = example_tokens_text, expirationTtl = Some 3600\<rparr>"
    and "SPOTIFY_DATA (snd ?run) ''oauth_state_s1'' = None"
    by (simp_all add: example_stringify example_callback_facts)
  with present posted show ?thesis
    by (simp only: example_answer_facts simp_thms)
qed

text \<open>
  C2 as stated fails when the 2xx answer of the token endpoint has a body that is
  not JSON: \<^verbatim>\<open>response.json()\<close> rejects, the handler's promise rejects with it, no
  token record is written and the state entry stays in the store.
\<close>

theorem callback_unparsable_counterexample:
  "searchParams_get example_callback ''code'' = Some ''c1''
   \<and> searchParams_get example_callback ''state'' = Some ''s1''
   \<and> SPOTIFY_DATA pending_world (state_key ''s1'') =
       Some \<lparr>kv_value = ''pending'', expirationTtl = Some 600\<rparr>
   \<and> ok token_unparsable
   \<and> Fetch (token_request example_env ''c1'' ''https://proxy.example/callback'')
         token_unparsable
       \<in> set (events_of pending_world
                (snd (fetch (example_runtime token_unparsable) example_env example_callback
                        pending_world)))
   \<and> fst (fetch (example_runtime token_unparsable) example_env example_callback
             pending_world) = Inl SyntaxError
   \<and> SPOTIFY_DATA
         (snd (fetch (example_runtime token_unparsable) example_env example_callback
                 pending_world)) ''spotify_tokens'' = None
   \<and> SPOTIFY_DATA
         (snd (fetch (example_runtime token_unparsable) example_env example_callback
                 pending_world)) (state_key ''s1'') =
       Some \<lparr>kv_value = ''pending'', expirationTtl = Some 600\<rparr>"
proof -
  have "ok token_unparsable"
    by (simp add: token_unparsable_def ok_def)
  moreover have "SPOTIFY_DATA pending_world ''spotify_tokens'' = None"
    by (simp add: pending_world_def)
  ultimately show ?thesis
    by (simp add: run_unparsable example_callback_facts example_world_facts events_of_def)
qed

lemma callback_failure_run:
  assumes "http_method req = ''GET''" and "pathname req = ''/callback''"
    and "searchParams_get req ''state'' = Some state"
    and "SPOTIFY_DATA w (state_key state) \<noteq> None"
  shows "case fetch rt env req w of (res, w') \<Rightarrow>
           (\<forall>rq rs. Fetch rq rs \<in> set (events_of w w') \<and> \<not> ok rs \<longrightarrow>
              res = Inr \<lparr>status = 400, headers = [],
                    body = Text (''Token exchange failed: Token exchange failed: ''
                                 @ u_statusText rs)\<rparr>
              \<and> SPOTIFY_DATA w' = SPOTIFY_DATA w
              \<and> events_of w w' = [KVGet (state_key state), Fetch rq rs])"
  using assms
  by (clarsimp simp: callback_defs
        split: option.split prod.split sum.split token_result.split; auto)

text \<open>
  C3. When a GET request to \<^verbatim>\<open>/callback\<close> names a stored state key and the run's
  request to the token endpoint is answered with a status outside 2xx, the response
  is 400 and its body ends with the upstream's status text; the store is left as it
  was (no token record written, nothing deleted), the run having only read the state
  key and posted the code.
\<close>

theorem callback_exchange_failure:
  assumes "http_method req = ''GET''" and "pathname req = ''/callback''"
    and "searchParams_get req ''state'' = Some state"
    and "SPOTIFY_DATA w (state_key state) \<noteq> None"
    and "fetch rt env req w = (res, w')"
    and "Fetch rq rs \<in> set (events_of w w')" and "\<not> ok rs"
  shows "res = Inr \<lparr>status = 400, headers = [],
                    body = Text (''Token exchange failed: Token exchange failed: ''
                                 @ u_statusText rs)\<rparr>
         \<and> SPOTIFY_DATA w' = SPOTIFY_DATA w
         \<and> events_of w w' = [KVGet (state_key state), Fetch rq rs]"
proof -
  from callback_failure_run [OF assms(1-4), where rt = rt and env = env]
  have "\<forall>rq rs. Fetch rq rs \<in> set (events_of w w') \<and> \<not> ok rs \<longrightarrow>
          res = Inr \<lparr>status = 400, headers = [],
                body = Text (''Token exchange failed: Token exchange failed: ''
                             @ u_statusText rs)\<rparr>
          \<and> SPOTIFY_DATA w' = SPOTIFY_DATA w
          \<and> events_of w w' = [KVGet (state_key state), Fetch rq rs]"
    by (simp only: assms(5) prod.case)
  with assms(6,7) show ?thesis by blast
qed

theorem callback_exchange_failure_witness:
  "SPOTIFY_DATA pending_world (state_key ''s1'') \<noteq> None
   \<and> \<not> ok token_rejected
   \<and> Fetch (token_request example_env ''c1'' ''https://proxy.example/callback'') token_rejected
       \<in> set (events_of pending_world
                (snd (fetch (example_runtime token_rejected) example_env example_callback
                        pending_world)))
   \<and> fst (fetch (example_runtime token_rejected) example_env example_callback pending_world) =
       Inr \<lparr>status = 400, headers = [],
            body = Text (''Token exchange failed: Token exchange failed: '' @ ''Bad Request'')\<rparr>
   \<and> SPOTIFY_DATA
        (snd (fetch (example_runtime token_rejected) example_env example_callback pending_world)) =
       SPOTIFY_DATA pending_world"
proof -
  let ?run = "fetch (example_runtime token_rejected) example_env example_callback pending_world"
  let ?rq = "token_request example_env ''c1'' ''https://proxy.example/callback''"
  have present: "SPOTIFY_DATA pending_world (state_key ''s1'') \<noteq> None"
    by (simp add: example_callback_facts example_world_facts)
  have run: "?run = (fst ?run, snd ?run)" by simp
  have posted: "Fetch ?rq token_rejected \<in> set (events_of pending_world (snd ?run))"
    by (simp add: run_rejected events_of_def example_world_facts)
  note failed =
    callback_exchange_failure
      [OF example_callback_facts(1,2,5) present run posted example_answer_facts(3)]
  from failed have
    "fst ?run =
       Inr \<lparr>status = 400, headers = [],
            body = Text (''Token exchange failed: Token exchange failed: '' @ ''Bad Request'')\<rparr>"
    and "SPOTIFY_DATA (snd ?run) = SPOTIFY_DATA pending_world"
    by (simp_all add: example_answer_facts)
  with present posted show ?thesis
    by (simp only: example_answer_facts simp_thms)
qed

lemma callback_consumed_run:
  assumes "http_method req = ''GET''" and "pathname req = ''/callback''"
    and "searchParams_get req ''state'' = Some state"
    and "SPOTIFY_DATA w (state_key state) \<noteq> None"
  shows "case fetch rt env req w of (res, w') \<Rightarrow>
           (\<forall>rq rs. Fetch rq rs \<in> set (events_of w w') \<and> ok rs \<and> u_json rs \<noteq> None \<longrightarrow>
              filter (touches (state_key state)) (events_of w w') =
                [KVGet (state_key state), KVDelete (state_key state)]
              \<and> SPOTIFY_DATA w' (state_key state) = None)"
  using assms state_key_not_tokens [of state]
  by (clarsimp simp: callback_defs
        split: option.split prod.split sum.split token_result.split; auto)

text \<open>
  C4, as the source has it. A state token whose key matches the \<open>state\<close> parameter
  of a callback is consumed when the token exchange of that callback succeeds: the
  run reads the key once and deletes it last, so a later lookup of the same state
  finds nothing.
\<close>

theorem state_consumed_on_success:
  assumes "http_method req = ''GET''" and "pathname req = ''/callback''"
    and "searchParams_get req ''state'' = Some state"
    and "SPOTIFY_DATA w (state_key state) \<noteq> None"
    and "fetch rt env req w = (res, w')"
    and "Fetch rq rs \<in> set (events_of w w')" and "ok rs" and "u_json rs \<noteq> None"
  shows "filter (touches (state_key state)) (events_of w w') =
           [KVGet (state_key state), KVDelete (state_key state)]
         \<and> SPOTIFY_DATA w' (state_key state) = None
         \<and> fst (kv_get (state_key state) w') = None"
proof -
  from callback_consumed_run [OF assms(1-4), where rt = rt and env = env]
  have "\<forall>rq rs. Fetch rq rs \<in> set (events_of w w') \<and> ok rs \<and> u_json rs \<noteq> None \<longrightarrow>
          filter (touches (state_key state)) (events_of w w') =
            [KVGet (state_key state), KVDelete (state_key state)]
          \<and> SPOTIFY_DATA w' (state_key state) = None"
    by (simp only: assms(5) prod.case)
  with assms(6-8) have
    "filter (touches (state_key state)) (events_of w w') =
       [KVGet (state_key state), KVDelete (state_key state)]
     \<and> SPOTIFY_DATA w' (state_key state) = None"
    by blast
  then show ?thesis by (simp add: kv_get_def)
qed

theorem state_consumed_on_success_witness:
  "SPOTIFY_DATA pending_world (state_key ''s1'') \<noteq> None
   \<and> ok token_granted \<and> u_json token_granted \<noteq> None
   \<and> Fetch (token_request example_env ''c1'' ''https://proxy.example/callback'') token_granted
       \<in> set (events_of pending_world
                (snd (fetch (example_runtime token_granted) example_env example_callback
                        pending_world)))
   \<and> filter (touches ''oauth_state_s1'')
        (events_of pending_world
           (snd (fetch (example_runtime token_granted) example_env example_callback
                   pending_world))) =
       [KVGet ''oauth_state_s1'', KVDelete ''oauth_state_s1'']
   \<and> fst (kv_get ''oauth_state_s1''
        (snd (fetch (example_runtime token_granted) example_env example_callback
                pending_world))) = None"
proof -
  let ?run = "fetch (example_runtime token_granted) example_env example_callback pending_world"
  let ?rq = "token_request example_env ''c1'' ''https://proxy.example/callback''"
  have present: "SPOTIFY_DATA pending_world (state_key ''s1'') \<noteq> None"
    by (simp add: example_callback_facts example_world_facts)
  have payload: "u_json token_granted \<noteq> None"
    by (simp add: example_answer_facts)
  have run: "?run = (fst ?run, snd ?run)" by simp
  have posted: "Fetch ?rq token_granted \<in> set (events_of pending_world (snd ?run))"
    by (simp add: run_granted events_of_def example_world_facts)
  note consumed =
    state_consumed_on_success
      [OF example_callback_facts(1,2,5) present run posted example_answer_facts(1) payload]
  from consumed have
    "filter (touches ''oauth_state_s1'') (events_of pending_world (snd ?run)) =
       [KVGet ''oauth_state_s1'', KVDelete ''oauth_state_s1'']"
    and "fst (kv_get ''oauth_state_s1'' (snd ?run)) = None"
    by (simp_all add: example_callback_facts)
  with present payload posted show ?thesis
    by (simp only: example_answer_facts simp_thms)
qed

text \<open>
  C4 as stated fails: with the state key stored and the \<open>state\<close> parameter matching
  it, a callback whose token exchange is rejected leaves the entry in the store, and
  a later lookup of the same state still finds it.
\<close>

theorem state_kept_on_failure_counterexample:
  "searchParams_get example_callback ''state'' = Some ''s1''
   \<and> fst (kv_get (state_key ''s1'') pending_world) = Some ''pending''
   \<and> fst (kv_get (state_key ''s1'')
        (snd (fetch (example_runtime token_rejected) example_env example_callback
                pending_world))) = Some ''pending''"
  by (simp add: run_rejected example_callback_facts example_world_facts kv_get_def)

text \<open>
  C10. The callback handler looks only at whether a non-empty value is stored under
  the state key: from any two stores that hold the key with non-empty values, the
  same request gets the same response and the run makes the same platform calls,
  the request to the token endpoint and its answer included.
\<close>

theorem callback_ignores_state_value:
  assumes "http_method req = ''GET''" and "pathname req = ''/callback''"
    and "searchParams_get req ''state'' = Some state"
    and "SPOTIFY_DATA wa (state_key state) = Some ea" and "kv_value ea \<noteq> []"
    and "SPOTIFY_DATA wb (state_key state) = Some eb" and "kv_value eb \<noteq> []"
  shows "fst (fetch rt env req wa) = fst (fetch rt env req wb)
         \<and> events_of wa (snd (fetch rt env req wa)) = events_of wb (snd (fetch rt env req wb))"
  using assms
  by (clarsimp simp: callback_defs
        split: option.split prod.split sum.split token_result.split; auto)

theorem callback_ignores_state_value_witness:
  "SPOTIFY_DATA pending_world (state_key ''s1'') =
     Some \<lparr>kv_value = ''pending'', expirationTtl = Some 600\<rparr>
   \<and> SPOTIFY_DATA relabelled_world (state_key ''s1'') =
       Some \<lparr>kv_value = ''anything'', expirationTtl = None\<rparr>
   \<and> fst (fetch (example_runtime token_granted) example_env example_callback pending_world) =
     fst (fetch (example_runtime token_granted) example_env example_callback relabelled_world)
   \<and> events_of pending_world
        (snd (fetch (example_runtime token_granted) example_env example_callback pending_world)) =
     events_of relabelled_world
        (snd (fetch (example_runtime token_granted) example_env example_callback
                relabelled_world))"
proof -
  have a: "SPOTIFY_DATA pending_world (state_key ''s1'') =
             Some \<lparr>kv_value = ''pending'', expirationTtl = Some 600\<rparr>"
    and b: "SPOTIFY_DATA relabelled_world (state_key ''s1'') =
             Some \<lparr>kv_value = ''anything'', expirationTtl = None\<rparr>"
    by (simp_all add: example_callback_facts example_world_facts)
  have va: "kv_value \<lparr>kv_value = ''pending'', expirationTtl = Some 600\<rparr> \<noteq> []"
    and vb: "kv_value \<lparr>kv_value = ''anything'', expirationTtl = None\<rparr> \<noteq> []"
    by simp_all
  from callback_ignores_state_value [OF example_callback_facts(1,2,5) a va b vb] a b
  show ?thesis by (simp only: simp_thms)
qed

section \<open>The authentication gate\<close>

lemmas gate_defs =
  fetch_def requireApiKey_def json_response_def truthy_string_def Let_def

lemma example_protected_facts:
  "http_method example_now_playing = ''GET''"
  "pathname example_now_playing = ''/now-playing''"
  "pathname example_now_playing \<notin> set publicEndpoints"
  "Authorization example_now_playing = Some ''Bearer key''"
  "API_KEY example_env = Some ''key''"
  by (simp_all add: example_now_playing_def example_env_def publicEndpoints_def)

text \<open>
  C5, as the source has it. For a request other than \<^verbatim>\<open>OPTIONS\<close> to a path outside
  the public list, with a non-empty configured key: if the \<^verbatim>\<open>Authorization\<close> header
  is missing, or does not start with \<^verbatim>\<open>Bearer \<close>, or carries another key after the
  seven characters of the prefix, the response is 401 and its body is one of three
  fixed messages. The response does not depend on the configured key: any other
  non-empty key that the header does not match gives the same response.
\<close>

theorem invalid_bearer_rejected:
  assumes "http_method req \<noteq> ''OPTIONS''" and "pathname req \<notin> set publicEndpoints"
    and "API_KEY env = Some key" and "key \<noteq> []"
    and "Authorization req = None
         \<or> (\<exists>h. Authorization req = Some h \<and> (\<not> prefix ''Bearer '' h \<or> drop 7 h \<noteq> key))"
  shows "(\<exists>r. fetch rt env req w = (Inr r, w) \<and> status r = 401
              \<and> body r \<in> {Text missing_header_body, Text invalid_format_body,
                            Text invalid_key_body})
         \<and> (\<forall>key'. key' \<noteq> [] \<and> Authorization req \<noteq> Some (''Bearer '' @ key')
               \<longrightarrow> fetch rt (env\<lparr>API_KEY := Some key'\<rparr>) req w = fetch rt env req w)"
  using assms
  by (auto simp: gate_defs prefix_def split: option.splits)

theorem invalid_bearer_rejected_witness:
  "(\<exists>r. fetch (example_runtime nothing_playing) example_env
            (example_now_playing\<lparr>Authorization := Some ''Bearer wrong''\<rparr>) empty_world =
          (Inr r, empty_world)
        \<and> status r = 401 \<and> body r = Text invalid_key_body)
   \<and> fetch (example_runtime nothing_playing) (example_env\<lparr>API_KEY := Some ''other''\<rparr>)
        (example_now_playing\<lparr>Authorization := Some ''Bearer wrong''\<rparr>) empty_world =
     fetch (example_runtime nothing_playing) example_env
        (example_now_playing\<lparr>Authorization := Some ''Bearer wrong''\<rparr>) empty_world"
proof -
  let ?req = "example_now_playing\<lparr>Authorization := Some ''Bearer wrong''\<rparr>"
  have m: "http_method ?req \<noteq> ''OPTIONS''" and p: "pathname ?req \<notin> set publicEndpoints"
    by (simp_all add: example_protected_facts publicEndpoints_def)
  have k: "''key'' \<noteq> []" by simp
  have h: "Authorization ?req = None
           \<or> (\<exists>h. Authorization ?req = Some h
                  \<and> (\<not> prefix ''Bearer '' h \<or> drop 7 h \<noteq> ''key''))"
    by simp
  note rejected =
    invalid_bearer_rejected
      [OF m p example_protected_facts(5) k h,
       of "example_runtime nothing_playing" empty_world]
  have "fetch (example_runtime nothing_playing) example_env ?req empty_world =
          (Inr (json_response 401 invalid_key_body), empty_world)"
    by (simp add: gate_defs example_protected_facts publicEndpoints_def)
  with rejected show ?thesis by (simp add: json_response_def)
qed

text \<open>
  C5 as stated fails twice. An \<^verbatim>\<open>OPTIONS\<close> request to a protected path without any
  header is answered 200 before the gate is reached. And the body of a 401 is a fixed
  text, so it contains the configured key whenever the key is a piece of that text:
  here the key is \<^verbatim>\<open>Invalid API key.\<close>
\<close>

theorem invalid_bearer_counterexample:
  "pathname (example_now_playing\<lparr>http_method := ''OPTIONS'', Authorization := None\<rparr>)
     \<notin> set publicEndpoints
   \<and> fst (fetch (example_runtime nothing_playing) example_env
        (example_now_playing\<lparr>http_method := ''OPTIONS'', Authorization := None\<rparr>)
        empty_world) =
       Inr \<lparr>status = 200, headers = corsHeaders, body = NoBody\<rparr>
   \<and> fst (fetch (example_runtime nothing_playing)
        (example_env\<lparr>API_KEY := Some ''Invalid API key.''\<rparr>)
        (example_now_playing\<lparr>Authorization := Some ''Bearer guess''\<rparr>) empty_world) =
       Inr \<lparr>status = 401, headers = json_headers, body = Text invalid_key_body\<rparr>
   \<and> sublist ''Invalid API key.'' invalid_key_body"
proof -
  have split: \<open>invalid_key_body = ''{"error":"'' @ ''Invalid API key.'' @ ''"}''\<close>
    by (simp add: invalid_key_body_def)
  have "sublist ''Invalid API key.'' invalid_key_body"
    unfolding split by (rule sublist_appendI)
  then show ?thesis
    by (simp add: gate_defs example_protected_facts example_env_def publicEndpoints_def)
qed

text \<open>
  C6, as the source has it. For a request other than \<^verbatim>\<open>OPTIONS\<close> to a path outside
  the public list, with the configured API key empty or absent: a request whose
  \<^verbatim>\<open>Authorization\<close> header starts with \<^verbatim>\<open>Bearer \<close> is answered 500 with the
  "not configured" error, whatever follows the prefix; a request without the header,
  or with a header of another form, is answered 401 by the checks that come first.
\<close>

theorem unconfigured_key_500:
  assumes "http_method req \<noteq> ''OPTIONS''" and "pathname req \<notin> set publicEndpoints"
    and "\<not> truthy_string (API_KEY env)"
  shows "(\<forall>h. Authorization req = Some h \<and> prefix ''Bearer '' h
            \<longrightarrow> fetch rt env req w = (Inr (json_response 500 not_configured_body), w))
         \<and> ((Authorization req = None
              \<or> (\<exists>h. Authorization req = Some h \<and> \<not> prefix ''Bearer '' h))
            \<longrightarrow> (\<exists>r. fetch rt env req w = (Inr r, w) \<and> status r = 401))
         \<and> sublist ''not configured'' not_configured_body"
proof -
  have split: \<open>not_configured_body =
          ''{"error":"API key '' @ ''not configured'' @
          ''. Please set up via Cloudflare dashboard."}''\<close>
    by (simp add: not_configured_body_def)
  have "sublist ''not configured'' not_configured_body"
    unfolding split by (rule sublist_appendI)
  with assms show ?thesis
    by (auto simp: fetch_def requireApiKey_def json_response_def Let_def split: option.splits)
qed

theorem unconfigured_key_500_witness:
  "\<not> truthy_string (API_KEY (example_env\<lparr>API_KEY := None\<rparr>))
   \<and> fetch (example_runtime nothing_playing) (example_env\<lparr>API_KEY := None\<rparr>)
        example_now_playing empty_world =
       (Inr \<lparr>status = 500, headers = json_headers, body = Text not_configured_body\<rparr>,
        empty_world)"
proof -
  have m: "http_method example_now_playing \<noteq> ''OPTIONS''"
    by (simp add: example_protected_facts)
  have k: "\<not> truthy_string (API_KEY (example_env\<lparr>API_KEY := None\<rparr>))"
    by (simp add: truthy_string_def)
  have h: "Authorization example_now_playing = Some ''Bearer key''
           \<and> prefix ''Bearer '' ''Bearer key''"
    by (simp add: example_protected_facts)
  from unconfigured_key_500
         [OF m example_protected_facts(3) k,
          of "example_runtime nothing_playing" empty_world] h
  have "fetch (example_runtime nothing_playing) (example_env\<lparr>API_KEY := None\<rparr>)
          example_now_playing empty_world =
        (Inr (json_response 500 not_configured_body), empty_world)"
    by blast
  with k show ?thesis by (simp add: json_response_def)
qed

text \<open>
  C6 as stated fails: with no API key configured, a request to a protected path that
  carries no \<^verbatim>\<open>Authorization\<close> header is answered 401, not 500.
\<close>

theorem unconfigured_key_counterexample:
  "\<not> truthy_string (API_KEY (example_env\<lparr>API_KEY := None\<rparr>))
   \<and> pathname example_now_playing \<notin> set publicEndpoints
   \<and> fst (fetch (example_runtime nothing_playing) (example_env\<lparr>API_KEY := None\<rparr>)
        (example_now_playing\<lparr>Authorization := None\<rparr>) empty_world) =
       Inr \<lparr>status = 401, headers = json_headers, body = Text missing_header_body\<rparr>"
  by (simp add: gate_defs example_protected_facts publicEndpoints_def)

text \<open>The handlers of the public paths never read the \<^verbatim>\<open>Authorization\<close> header.\<close>

lemma public_handlers_ignore_Authorization:
  "handleSetup rt env (req\<lparr>Authorization := a\<rparr>) w = handleSetup rt env req w"
  "handleCredentials rt env (req\<lparr>Authorization := a\<rparr>) w = handleCredentials rt env req w"
  "handleHealth rt env (req\<lparr>Authorization := a\<rparr>) w = handleHealth rt env req w"
  "handleCallback rt env (req\<lparr>Authorization := a\<rparr>) w = handleCallback rt env req w"
  by (simp_all add: handleSetup_def handleCredentials_def handleHealth_def handleCallback_def
        searchParams_get_def Let_def kv_get_def cong: if_cong)

text \<open>
  C7. For a request other than \<^verbatim>\<open>OPTIONS\<close> to one of the public paths, the entry
  point goes straight to the route (the gate is not called), and two requests that
  differ only in the \<^verbatim>\<open>Authorization\<close> header get the same response, leave the same
  store and make the same platform calls, on the same platform (the same random
  draws and clock).
\<close>

theorem public_paths_skip_gate:
  assumes "http_method req \<noteq> ''OPTIONS''" and "pathname req \<in> set publicEndpoints"
  shows "fetch rt env (req\<lparr>Authorization := a\<rparr>) w = fetch rt env (req\<lparr>Authorization := b\<rparr>) w
         \<and> fetch rt env req w = route rt env req w"
  using assms
  by (auto simp: fetch_def route_def publicEndpoints_def public_handlers_ignore_Authorization)

theorem public_paths_skip_gate_witness:
  "pathname example_callback \<in> set publicEndpoints
   \<and> fetch (example_runtime token_granted) example_env
        (example_callback\<lparr>Authorization := Some ''Bearer wrong''\<rparr>) pending_world =
     fetch (example_runtime token_granted) example_env
        (example_callback\<lparr>Authorization := None\<rparr>) pending_world
   \<and> fetch (example_runtime token_granted) example_env example_callback pending_world =
     route (example_runtime token_granted) example_env example_callback pending_world"
proof -
  have m: "http_method example_callback \<noteq> ''OPTIONS''"
    and p: "pathname example_callback \<in> set publicEndpoints"
    by (simp_all add: example_callback_facts publicEndpoints_def)
  from public_paths_skip_gate [OF m p] p show ?thesis by blast
qed

section \<open>Initiating the authorization\<close>

subsection \<open>The index a draw selects\<close>

text \<open>
  The largest double below 1 times the length of a charset still rounds to a double
  below that length, so the index is a position of the charset.
\<close>

lemma Math_floor_times_range:
  assumes "is_unit_double r" and "0 < n"
  shows "0 \<le> Math_floor_times r n \<and> Math_floor_times r n < int n"
proof -
  define m k a d p q rest rounded where
    "m = significand r" and "k = shift r" and "a = m * n"
    and "d = floorlog 2 a - 53" and "p = (2::nat) ^ d"
    and "q = a div p" and "rest = a mod p"
    and "rounded = (if p < 2 * rest \<or> (2 * rest = p \<and> odd q) then q + 1 else q)"
  have val: "Math_floor_times r n = int ((rounded * p) div 2 ^ k)"
    by (simp add: Math_floor_times_def Let_def m_def k_def a_def d_def p_def q_def rest_def
          rounded_def)
  have m: "m < 2 ^ 53" "m < 2 ^ k"
    using assms(1) by (simp_all add: is_unit_double_def m_def k_def)
  have a_eq: "a = q * p + rest"
    by (simp add: q_def rest_def)
  have round: "rounded * p \<le> a + p div 2"
  proof (cases "p < 2 * rest \<or> (2 * rest = p \<and> odd q)")
    case True
    then have "rounded = q + 1"
      unfolding rounded_def by (rule if_P)
    then have "rounded * p = q * p + p"
      by (simp add: algebra_simps)
    moreover from True have "p \<le> rest + p div 2"
      by arith
    ultimately show ?thesis using a_eq by simp
  next
    case False
    then have "rounded = q"
      unfolding rounded_def by (rule if_not_P)
    then show ?thesis using a_eq by simp
  qed
  have half: "p div 2 < n"
  proof (cases "d = 0")
    case True
    then show ?thesis using assms(2) by (simp add: p_def)
  next
    case False
    then have bits: "floorlog 2 a = 53 + d"
      by (simp add: d_def)
    then have "0 < a"
      by (cases "a = 0") (simp_all add: floorlog_def)
    from floorlog_bounds [OF this, of 2] bits have "2 ^ (52 + d) \<le> a"
      by simp
    moreover have "a < 2 ^ 53 * n"
      using m(1) assms(2) by (simp add: a_def)
    ultimately have "(2::nat) ^ (52 + d) < 2 ^ 53 * n"
      by linarith
    moreover from False obtain e where e: "d = Suc e"
      by (cases d) simp_all
    ultimately have "(2::nat) ^ 53 * 2 ^ e < 2 ^ 53 * n"
      by (simp add: power_add)
    then have "2 ^ e < n"
      by simp
    moreover have "p div 2 = 2 ^ e"
      by (simp add: p_def e)
    ultimately show ?thesis by simp
  qed
  have "a + n \<le> n * 2 ^ k"
  proof -
    from m(2) have "m + 1 \<le> 2 ^ k" by simp
    then have "(m + 1) * n \<le> 2 ^ k * n" by (rule mult_le_mono1)
    then show ?thesis by (simp add: a_def algebra_simps)
  qed
  with round half have "rounded * p < n * 2 ^ k"
    by linarith
  then have "(rounded * p) div 2 ^ k < n"
    by (rule less_mult_imp_div_less)
  with val show ?thesis by simp
qed

text \<open>
  The rounding is that of doubles and not exact arithmetic: for the draw
  4794154442039560 / 2^53 the exact product with 62 lies below 33, the product of
  doubles is 33.
\<close>

lemma floorlog_of_rounded_example: "floorlog 2 (297237575406452720::nat) = 59"
  by (simp add: compute_floorlog)

lemma Math_floor_times_rounds:
  "Math_floor_times \<lparr>significand = 4794154442039560, shift = 53\<rparr> 62 = 33
   \<and> (4794154442039560 * 62 :: nat) div 2 ^ 53 = 32"
  by (simp add: Math_floor_times_def Let_def floorlog_of_rounded_example)

lemma random_from_Suc:
  "random_from cs rt (Suc n) =
     random_from cs rt n @ charAt cs (Math_floor_times (Math_random rt n) (length cs))"
  by (simp add: random_from_def)

lemma random_from_props:
  assumes "cs \<noteq> []" and "\<forall>i<n. is_unit_double (Math_random rt i)"
  shows "length (random_from cs rt n) = n
         \<and> (\<forall>i<n. random_from cs rt n ! i =
                     cs ! nat (Math_floor_times (Math_random rt i) (length cs)))
         \<and> set (random_from cs rt n) \<subseteq> set cs"
  using assms(2)
proof (induction n)
  case 0
  show ?case by (simp add: random_from_def)
next
  case (Suc n)
  let ?k = "Math_floor_times (Math_random rt n) (length cs)"
  have "is_unit_double (Math_random rt n)" using Suc.prems by simp
  moreover have "0 < length cs" using assms(1) by simp
  ultimately have lo: "0 \<le> ?k" and hi: "?k < int (length cs)"
    using Math_floor_times_range by blast+
  then have "nat ?k < length cs" by linarith
  then have mem: "cs ! nat ?k \<in> set cs" by simp
  have step: "random_from cs rt (Suc n) = random_from cs rt n @ [cs ! nat ?k]"
    using lo hi by (simp add: random_from_Suc charAt_def)
  have IH: "length (random_from cs rt n) = n"
    "\<forall>i<n. random_from cs rt n ! i =
             cs ! nat (Math_floor_times (Math_random rt i) (length cs))"
    "set (random_from cs rt n) \<subseteq> set cs"
    using Suc by simp_all
  have "\<forall>i<Suc n. random_from cs rt (Suc n) ! i =
          cs ! nat (Math_floor_times (Math_random rt i) (length cs))"
    using IH(1,2) by (auto simp: step nth_append less_Suc_eq)
  with IH(1,3) mem show ?case by (simp add: step)
qed

lemma random_charset_alphanumeric: "\<forall>c \<in> set random_charset. alphanumeric c"
  by (simp add: random_charset_def alphanumeric_def)

lemma random_charset_distinct: "distinct random_charset \<and> length random_charset = 62"
  by (simp add: random_charset_def)

subsection \<open>The redirect\<close>

lemma encoded_scope:
  "encodeURIComponent setup_scope =
     ''user-read-currently-playing%20user-read-recently-played%20user-read-playback-state''"
  by (simp add: encodeURIComponent_def setup_scope_def encode_byte_def uri_unreserved_def
        random_charset_def hex_digit_def)

text \<open>A query made of bytes outside the special-query set passes the parser unchanged.\<close>

lemma percent_encode_unchanged:
  "\<forall>c \<in> set s. \<not> encode_set c \<Longrightarrow> percent_encode encode_set s = s"
  by (induction s) (simp_all add: percent_encode_def)

lemma unencoded_byte:
  assumes "\<not> special_query_percent_encode_set c"
  shows "c \<noteq> CHR ''#''" and "\<not> tab_or_newline c" and "\<not> c0_control_or_space c"
  using assms
  by (auto simp: special_query_percent_encode_set_def c0_control_percent_encode_set_def
        tab_or_newline_def c0_control_or_space_def)

lemma strip_trailing_unchanged:
  "s \<noteq> [] \<Longrightarrow> \<not> c0_control_or_space (last s) \<Longrightarrow>
     rev (dropWhile c0_control_or_space (rev s)) = s"
  by (cases s rule: rev_cases) simp_all

lemma URL_href_unchanged:
  assumes "\<forall>c \<in> set q. \<not> special_query_percent_encode_set c"
  shows "URL_href (''https://accounts.spotify.com/authorize?'' @ q) =
           ''https://accounts.spotify.com/authorize?'' @ q"
proof -
  let ?p = "''https://accounts.spotify.com/authorize?''"
  have last: "\<not> c0_control_or_space (last (?p @ q))"
    using assms unencoded_byte(3) by (cases "q = []") (simp_all add: c0_control_or_space_def)
  have lead: "dropWhile c0_control_or_space (?p @ q) = ?p @ q"
    by (simp add: c0_control_or_space_def)
  have strip: "rev (dropWhile c0_control_or_space (rev (?p @ q))) = ?p @ q"
    using last by (intro strip_trailing_unchanged) simp_all
  have "filter (\<lambda>c. \<not> tab_or_newline c) ?p = ?p"
    by (simp add: tab_or_newline_def)
  moreover have "filter (\<lambda>c. \<not> tab_or_newline c) q = q"
    using assms unencoded_byte(2) by (simp add: filter_id_conv)
  ultimately have keep: "filter (\<lambda>c. \<not> tab_or_newline c) (?p @ q) = ?p @ q"
    by (simp only: filter_append)
  have query: "takeWhile (\<lambda>c. c \<noteq> CHR ''#'') q = q"
    and frag: "dropWhile (\<lambda>c. c \<noteq> CHR ''#'') q = []"
    using assms unencoded_byte(1) by (simp_all add: takeWhile_eq_all_conv)
  show ?thesis
    unfolding URL_href_def lead strip keep Let_def
    by (simp add: query frag percent_encode_unchanged [OF assms])
qed

lemma hex_digit_unencoded: "\<not> special_query_percent_encode_set (hex_digit n)"
proof -
  have "hex_digit n \<in> set ''0123456789ABCDEF''"
    unfolding hex_digit_def by (rule nth_mem) simp
  then show ?thesis
    by (auto simp: special_query_percent_encode_set_def c0_control_percent_encode_set_def)
qed

lemma unreserved_all_unencoded:
  "list_all (\<lambda>c. c = CHR 0x27 \<or> \<not> special_query_percent_encode_set c) uri_unreserved"
  by (simp add: uri_unreserved_def random_charset_def special_query_percent_encode_set_def
        c0_control_percent_encode_set_def)

lemma unreserved_unencoded:
  "c \<in> set uri_unreserved \<Longrightarrow> c \<noteq> CHR 0x27 \<Longrightarrow> \<not> special_query_percent_encode_set c"
  using unreserved_all_unencoded by (simp only: list_all_iff) blast

lemma percent_sign_unencoded: "\<not> special_query_percent_encode_set CHR ''%''"
  by (simp add: special_query_percent_encode_set_def c0_control_percent_encode_set_def)

lemma encode_byte_unencoded:
  assumes "b \<noteq> CHR 0x27" and "c \<in> set (encode_byte b)"
  shows "\<not> special_query_percent_encode_set c"
proof (cases "b \<in> set uri_unreserved")
  case True
  with assms(2) have "c = b" by (simp add: encode_byte_def)
  with True assms(1) show ?thesis by (simp only: unreserved_unencoded not_False_eq_True)
next
  case False
  with assms(2) have
    "c = CHR ''%'' \<or> c = hex_digit (of_char b div 16) \<or> c = hex_digit (of_char b)"
    by (simp add: encode_byte_def)
  then show ?thesis
    using percent_sign_unencoded hex_digit_unencoded by blast
qed

lemma encodeURIComponent_unencoded:
  assumes "CHR 0x27 \<notin> set s"
  shows "\<forall>c \<in> set (encodeURIComponent s). \<not> special_query_percent_encode_set c"
proof
  fix c
  assume "c \<in> set (encodeURIComponent s)"
  then obtain b where "b \<in> set s" and "c \<in> set (encode_byte b)"
    by (auto simp: encodeURIComponent_def)
  moreover from this(1) assms have "b \<noteq> CHR 0x27" by blast
  ultimately show "\<not> special_query_percent_encode_set c"
    using encode_byte_unencoded by blast
qed

lemma alphanumeric_unencoded: "alphanumeric c \<Longrightarrow> \<not> special_query_percent_encode_set c"
  by (auto simp: alphanumeric_def special_query_percent_encode_set_def
        c0_control_percent_encode_set_def Let_def)

lemma example_setup_facts:
  "http_method example_setup = ''POST''"
  "pathname example_setup = ''/setup''"
  "origin example_setup = ''https://proxy.example''"
  "SPOTIFY_CLIENT_ID example_env = Some ''client''"
  "truthy_string (SPOTIFY_CLIENT_SECRET example_env)"
  "Math_random (example_runtime answer) i = \<lparr>significand = 1, shift = 1\<rparr>"
  "is_unit_double (Math_random (example_runtime answer) i)"
  by (simp_all add: example_setup_def example_env_def example_runtime_def truthy_string_def
        is_unit_double_def)

lemma floorlog_of_half_example: "floorlog 2 (62::nat) = 6"
  by (simp add: compute_floorlog)

lemma example_index:
  "random_charset ! nat (Math_floor_times \<lparr>significand = 1, shift = 1\<rparr> 62) = CHR ''f''"
  by (simp add: Math_floor_times_def Let_def floorlog_of_half_example random_charset_def)

lemma sixteen_f: "''ffffffffffffffff'' = replicate 16 CHR ''f''"
  by (simp add: numeral_eq_Suc)

lemma example_state:
  "generateRandomString (example_runtime answer) 16 = ''ffffffffffffffff''"
proof -
  have "random_charset \<noteq> []"
    by (simp add: random_charset_def)
  moreover have "\<forall>i<16. is_unit_double (Math_random (example_runtime answer) i)"
    using example_setup_facts(7) by blast
  ultimately have
    "length (random_from random_charset (example_runtime answer) 16) = 16
     \<and> (\<forall>i<16. random_from random_charset (example_runtime answer) 16 ! i =
            random_charset ! nat (Math_floor_times (Math_random (example_runtime answer) i)
                                    (length random_charset)))"
    using random_from_props by blast
  then have "length (generateRandomString (example_runtime answer) 16) = 16"
    and "\<forall>i<16. generateRandomString (example_runtime answer) 16 ! i = CHR ''f''"
    using example_index random_charset_distinct
    by (simp_all add: generateRandomString_def example_setup_facts)
  then show ?thesis
    unfolding sixteen_f by (intro nth_equalityI) simp_all
qed

lemma example_redirect_uri:
  "encodeURIComponent (''https://proxy.example'' @ ''/callback'') =
     ''https%3A%2F%2Fproxy.example%2Fcallback''"
  by (simp add: encodeURIComponent_def encode_byte_def uri_unreserved_def
        random_charset_def hex_digit_def)

lemma setup_run:
  assumes "http_method req = ''POST''" and "pathname req = ''/setup''"
    and "SPOTIFY_CLIENT_ID env = Some client_id" and "client_id \<noteq> []"
    and "truthy_string (SPOTIFY_CLIENT_SECRET env)"
  shows "fetch rt env req w =
           (Inr \<lparr>status = 302,
                 headers = [(''Location'',
                    URL_href
                      (''https://accounts.spotify.com/authorize?response_type=code&client_id=''
                       @ client_id
                       @ ''&scope=user-read-currently-playing%20user-read-recently-played%20user-read-playback-state''
                       @ ''&redirect_uri='' @ encodeURIComponent (origin req @ ''/callback'')
                       @ ''&state='' @ generateRandomString rt 16))],
                 body = NoBody\<rparr>,
            w\<lparr>SPOTIFY_DATA := (SPOTIFY_DATA w)
                 (''oauth_state_'' @ generateRandomString rt 16 \<mapsto>
                    \<lparr>kv_value = ''pending'', expirationTtl = Some 600\<rparr>),
              trace := trace w
                @ [KVPut (''oauth_state_'' @ generateRandomString rt 16) ''pending'' (Some 600)]\<rparr>)"
  using assms
  by (simp add: fetch_def publicEndpoints_def route_def handleSetup_def has_credentials_def
        truthy_string_def Response_redirect_def authUrl_def encoded_scope template_def
        kv_put_def state_key_def Let_def)

text \<open>
  C8, as the source has it. For a POST request to \<^verbatim>\<open>/setup\<close> with client identifier
  and client secret configured, and with every draw of \<^verbatim>\<open>Math.random\<close> a double below
  1: the handler builds a state of 16 alphanumeric characters, the \<open>i\<close>-th being the
  entry of the 62-character charset that the \<open>i\<close>-th draw selects (the entries are
  distinct, so the state tells the 16 indices drawn); it stores
  \<open>oauth_state_<state>\<close> with the value \<^verbatim>\<open>pending\<close> and a 600-second expiry, and this
  put is the run's only platform call; it answers 302, and the \<^verbatim>\<open>Location\<close> is what the
  URL parser makes of the authorization endpoint followed by \<^verbatim>\<open>response_type=code\<close>,
  the client identifier as configured, the three scopes encoded, the encoded redirect
  URI (the request's origin followed by \<^verbatim>\<open>/callback\<close>) and that state. When the client
  identifier has no byte that the parser rewrites and the origin has no apostrophe,
  the \<^verbatim>\<open>Location\<close> is that string itself.
\<close>

theorem setup_post_redirects:
  assumes "http_method req = ''POST''" and "pathname req = ''/setup''"
    and "SPOTIFY_CLIENT_ID env = Some client_id" and "client_id \<noteq> []"
    and "truthy_string (SPOTIFY_CLIENT_SECRET env)"
    and "\<forall>i<16. is_unit_double (Math_random rt i)"
  shows "\<exists>state url.
           length state = 16 \<and> (\<forall>c \<in> set state. alphanumeric c)
           \<and> (\<forall>i<16. state ! i =
                  random_charset ! nat (Math_floor_times (Math_random rt i) 62))
           \<and> distinct random_charset
           \<and> url =
               ''https://accounts.spotify.com/authorize?response_type=code&client_id=''
               @ client_id
               @ ''&scope=user-read-currently-playing%20user-read-recently-played%20user-read-playback-state''
               @ ''&redirect_uri='' @ encodeURIComponent (origin req @ ''/callback'')
               @ ''&state='' @ state
           \<and> fetch rt env req w =
               (Inr \<lparr>status = 302, headers = [(''Location'', URL_href url)], body = NoBody\<rparr>,
                w\<lparr>SPOTIFY_DATA := (SPOTIFY_DATA w)
                     (''oauth_state_'' @ state \<mapsto>
                        \<lparr>kv_value = ''pending'', expirationTtl = Some 600\<rparr>),
                  trace := trace w @ [KVPut (''oauth_state_'' @ state) ''pending'' (Some 600)]\<rparr>)
           \<and> ((\<forall>c \<in> set client_id. \<not> special_query_percent_encode_set c)
                \<and> CHR 0x27 \<notin> set (origin req)
              \<longrightarrow> URL_href url = url)"
proof -
  let ?state = "generateRandomString rt 16"
  let ?fixed1 = "''response_type=code&client_id=''"
  let ?fixed2 = "''&scope=user-read-currently-playing%20user-read-recently-played%20user-read-playback-state&redirect_uri=''"
  let ?fixed3 = "''&state=''"
  let ?enc = "encodeURIComponent (origin req @ ''/callback'')"
  let ?q = "?fixed1 @ client_id @ ?fixed2 @ ?enc @ ?fixed3 @ ?state"
  let ?url = "''https://accounts.spotify.com/authorize?'' @ ?q"
  have "random_charset \<noteq> []"
    by (simp add: random_charset_def)
  from random_from_props [OF this assms(6)]
  have len: "length ?state = 16"
    and nth: "\<forall>i<16. ?state ! i = random_charset ! nat (Math_floor_times (Math_random rt i) 62)"
    and sub: "set ?state \<subseteq> set random_charset"
    using random_charset_distinct by (simp_all add: generateRandomString_def)
  have alnum: "\<forall>c \<in> set ?state. alphanumeric c"
    using sub random_charset_alphanumeric by blast
  have fixed: "\<forall>c \<in> set ?fixed1. \<not> special_query_percent_encode_set c"
    "\<forall>c \<in> set ?fixed2. \<not> special_query_percent_encode_set c"
    "\<forall>c \<in> set ?fixed3. \<not> special_query_percent_encode_set c"
    by (simp_all add: special_query_percent_encode_set_def c0_control_percent_encode_set_def)
  have plain: "URL_href ?url = ?url"
    if id: "\<forall>c \<in> set client_id. \<not> special_query_percent_encode_set c"
      and org: "CHR 0x27 \<notin> set (origin req)"
  proof -
    from org have "CHR 0x27 \<notin> set (origin req @ ''/callback'')"
      by simp
    then have "\<forall>c \<in> set ?enc. \<not> special_query_percent_encode_set c"
      by (rule encodeURIComponent_unencoded)
    moreover have "\<forall>c \<in> set ?state. \<not> special_query_percent_encode_set c"
      using alnum alphanumeric_unencoded by blast
    ultimately have "\<forall>c \<in> set ?q. \<not> special_query_percent_encode_set c"
      using fixed id by (simp only: set_append ball_Un simp_thms)
    then show ?thesis by (rule URL_href_unchanged)
  qed
  have url: "?url =
      ''https://accounts.spotify.com/authorize?response_type=code&client_id=''
      @ client_id
      @ ''&scope=user-read-currently-playing%20user-read-recently-played%20user-read-playback-state''
      @ ''&redirect_uri='' @ ?enc @ ''&state='' @ ?state"
    by simp
  have run: "fetch rt env req w =
      (Inr \<lparr>status = 302, headers = [(''Location'', URL_href ?url)], body = NoBody\<rparr>,
       w\<lparr>SPOTIFY_DATA := (SPOTIFY_DATA w)
            (''oauth_state_'' @ ?state \<mapsto> \<lparr>kv_value = ''pending'', expirationTtl = Some 600\<rparr>),
         trace := trace w @ [KVPut (''oauth_state_'' @ ?state) ''pending'' (Some 600)]\<rparr>)"
    unfolding url by (rule setup_run [OF assms(1-5)])
  show ?thesis
    using len alnum nth random_charset_distinct url run plain by blast
qed

theorem setup_post_redirects_witness:
  "fst (fetch (example_runtime nothing_playing) example_env example_setup empty_world) =
     Inr \<lparr>status = 302,
          headers = [(''Location'',
             ''https://accounts.spotify.com/authorize?response_type=code&client_id=''
             @ ''client''
             @ ''&scope=user-read-currently-playing%20user-read-recently-played%20user-read-playback-state''
             @ ''&redirect_uri='' @ ''https%3A%2F%2Fproxy.example%2Fcallback''
             @ ''&state='' @ ''ffffffffffffffff'')],
          body = NoBody\<rparr>
   \<and> events_of empty_world
         (snd (fetch (example_runtime nothing_playing) example_env example_setup empty_world)) =
       [KVPut (''oauth_state_'' @ ''ffffffffffffffff'') ''pending'' (Some 600)]"
proof -
  let ?rt = "example_runtime nothing_playing"
  have c: "''client'' \<noteq> []" by simp
  have r: "\<forall>i<16. is_unit_double (Math_random ?rt i)"
    using example_setup_facts(7) by blast
  from setup_post_redirects
         [OF example_setup_facts(1,2,4) c example_setup_facts(5) r, where w = empty_world]
  obtain state url where len: "length state = 16"
    and nth: "\<forall>i<16. state ! i = random_charset ! nat (Math_floor_times (Math_random ?rt i) 62)"
    and url: "url =
               ''https://accounts.spotify.com/authorize?response_type=code&client_id=''
               @ ''client''
               @ ''&scope=user-read-currently-playing%20user-read-recently-played%20user-read-playback-state''
               @ ''&redirect_uri='' @ encodeURIComponent (origin example_setup @ ''/callback'')
               @ ''&state='' @ state"
    and run: "fetch ?rt example_env example_setup empty_world =
               (Inr \<lparr>status = 302, headers = [(''Location'', URL_href url)], body = NoBody\<rparr>,
                empty_world\<lparr>SPOTIFY_DATA := (SPOTIFY_DATA empty_world)
                     (''oauth_state_'' @ state \<mapsto>
                        \<lparr>kv_value = ''pending'', expirationTtl = Some 600\<rparr>),
                  trace := trace empty_world
                    @ [KVPut (''oauth_state_'' @ state) ''pending'' (Some 600)]\<rparr>)"
    and plain: "(\<forall>c \<in> set ''client''. \<not> special_query_percent_encode_set c)
                \<and> CHR 0x27 \<notin> set (origin example_setup)
              \<longrightarrow> URL_href url = url"
    by blast
  from nth have "\<forall>i<16. state ! i = CHR ''f''"
    by (simp only: example_setup_facts(6) example_index)
  with len have state: "state = ''ffffffffffffffff''"
    unfolding sixteen_f by (intro nth_equalityI) simp_all
  have "(\<forall>c \<in> set ''client''. \<not> special_query_percent_encode_set c)
        \<and> CHR 0x27 \<notin> set (origin example_setup)"
    by (simp add: example_setup_facts special_query_percent_encode_set_def
          c0_control_percent_encode_set_def)
  with plain have href: "URL_href url = url" by blast
  have location: "url =
      ''https://accounts.spotify.com/authorize?response_type=code&client_id=''
      @ ''client''
      @ ''&scope=user-read-currently-playing%20user-read-recently-played%20user-read-playback-state''
      @ ''&redirect_uri='' @ ''https%3A%2F%2Fproxy.example%2Fcallback''
      @ ''&state='' @ ''ffffffffffffffff''"
    using example_redirect_uri by (simp add: url state example_setup_facts)
  from run have "fst (fetch ?rt example_env example_setup empty_world) =
      Inr \<lparr>status = 302, headers = [(''Location'', URL_href url)], body = NoBody\<rparr>"
    and "events_of empty_world (snd (fetch ?rt example_env example_setup empty_world)) =
      [KVPut (''oauth_state_'' @ state) ''pending'' (Some 600)]"
    by (simp_all add: events_of_def)
  then show ?thesis
    unfolding href state unfolding location by blast
qed

text \<open>
  C8 as stated fails for a client identifier with a byte that the URL parser
  rewrites: with the identifier \<^verbatim>\<open>my id&v=2\<close> configured, the \<^verbatim>\<open>Location\<close> of the
  redirect carries \<^verbatim>\<open>client_id=my%20id&v=2\<close> and does not contain the identifier.
\<close>

theorem setup_client_id_counterexample:
  "SPOTIFY_CLIENT_ID (example_env\<lparr>SPOTIFY_CLIENT_ID := Some ''my id&v=2''\<rparr>) = Some ''my id&v=2''
   \<and> fst (fetch (example_runtime nothing_playing)
             (example_env\<lparr>SPOTIFY_CLIENT_ID := Some ''my id&v=2''\<rparr>) example_setup empty_world) =
     Inr \<lparr>status = 302,
          headers = [(''Location'',
             ''https://accounts.spotify.com/authorize?response_type=code&client_id=my%20id&v=2&scope=user-read-currently-playing%20user-read-recently-played%20user-read-playback-state&redirect_uri=https%3A%2F%2Fproxy.example%2Fcallback&state=ffffffffffffffff'')],
          body = NoBody\<rparr>
   \<and> \<not> sublist ''my id&v=2''
         ''https://accounts.spotify.com/authorize?response_type=code&client_id=my%20id&v=2&scope=user-read-currently-playing%20user-read-recently-played%20user-read-playback-state&redirect_uri=https%3A%2F%2Fproxy.example%2Fcallback&state=ffffffffffffffff''"
proof -
  let ?env = "example_env\<lparr>SPOTIFY_CLIENT_ID := Some ''my id&v=2''\<rparr>"
  have i: "SPOTIFY_CLIENT_ID ?env = Some ''my id&v=2''" and n: "''my id&v=2'' \<noteq> []"
    and s: "truthy_string (SPOTIFY_CLIENT_SECRET ?env)"
    by (simp_all add: example_env_def truthy_string_def)
  have href: "URL_href
      (''https://accounts.spotify.com/authorize?response_type=code&client_id=''
       @ ''my id&v=2''
       @ ''&scope=user-read-currently-playing%20user-read-recently-played%20user-read-playback-state''
       @ ''&redirect_uri='' @ ''https%3A%2F%2Fproxy.example%2Fcallback''
       @ ''&state='' @ ''ffffffffffffffff'') =
      ''https://accounts.spotify.com/authorize?response_type=code&client_id=my%20id&v=2&scope=user-read-currently-playing%20user-read-recently-played%20user-read-playback-state&redirect_uri=https%3A%2F%2Fproxy.example%2Fcallback&state=ffffffffffffffff''"
    by (simp add: URL_href_def Let_def c0_control_or_space_def tab_or_newline_def
          percent_encode_def special_query_percent_encode_set_def
          c0_control_percent_encode_set_def hex_digit_def)
  have absent: "\<not> sublist ''my id&v=2''
         ''https://accounts.spotify.com/authorize?response_type=code&client_id=my%20id&v=2&scope=user-read-currently-playing%20user-read-recently-played%20user-read-playback-state&redirect_uri=https%3A%2F%2Fproxy.example%2Fcallback&state=ffffffffffffffff''"
    by (simp add: sublist_Cons_right)
  from setup_run [OF example_setup_facts(1,2) i n s, of "example_runtime nothing_playing"
      empty_world] example_redirect_uri href
  have "fst (fetch (example_runtime nothing_playing) ?env example_setup empty_world) =
     Inr \<lparr>status = 302,
          headers = [(''Location'',
             ''https://accounts.spotify.com/authorize?response_type=code&client_id=my%20id&v=2&scope=user-read-currently-playing%20user-read-recently-played%20user-read-playback-state&redirect_uri=https%3A%2F%2Fproxy.example%2Fcallback&state=ffffffffffffffff'')],
          body = NoBody\<rparr>"
    by (simp add: example_state example_setup_facts)
  with i absent show ?thesis by blast
qed

section \<open>The current track\<close>

lemmas now_playing_defs =
  fetch_def publicEndpoints_def route_def handleNowPlaying_def getStoredTokens_def
  callSpotifyAPI_def kv_get_def global_fetch_def new_Response_def requireApiKey_def
  truthy_string_def template_def events_of_def Let_def relay_json_def

lemma now_playing_run:
  assumes "http_method req = ''GET''" and "pathname req = ''/now-playing''"
    and "API_KEY env = Some key" and "key \<noteq> []"
    and "Authorization req = Some (''Bearer '' @ key)"
  shows "case fetch rt env req w of (res, w') \<Rightarrow>
           (SPOTIFY_DATA w ''spotify_tokens'' = None \<longrightarrow>
              res = Inr \<lparr>status = 401, headers = json_headers, body = Text no_tokens_body\<rparr>)
           \<and> (\<forall>rq rs. Fetch rq rs \<in> set (events_of w w') \<and> u_status rs = 204 \<longrightarrow>
                 u_url rq = ''https://api.spotify.com/v1/me/player/currently-playing''
                 \<and> res = Inr \<lparr>status = 200, headers = json_headers,
                              body = Text not_playing_body\<rparr>)"
  using assms
  by (clarsimp simp: now_playing_defs split: option.split prod.split sum.split; auto)

lemma not_playing_body_playing_false: "sublist playing_false not_playing_body"
proof -
  have split: \<open>not_playing_body =
                 ''{'' @ playing_false @ '',"message":"No track currently playing"}''\<close>
    by (simp add: not_playing_body_def playing_false_def)
  show ?thesis unfolding split by (rule sublist_appendI)
qed

lemma example_token_facts:
  "example_tokens_text \<noteq> []"
  "JSON_parse (example_runtime answer) example_tokens_text = Some example_tokens"
  "truthy example_tokens"
  "access_token example_tokens = Some (JStr ''tok'')"
  "upstream (example_runtime answer) rq = answer"
  "u_status nothing_playing = 204"
  "SPOTIFY_DATA authorized_world ''spotify_tokens'' =
     Some \<lparr>kv_value = example_tokens_text, expirationTtl = Some 3600\<rparr>"
  "trace authorized_world = []"
  by (simp_all add: example_tokens_text_def example_runtime_def example_tokens_def
        nothing_playing_def authorized_world_def)

lemma run_no_tokens:
  "fetch (example_runtime nothing_playing) example_env example_now_playing empty_world =
     (Inr \<lparr>status = 401, headers = json_headers, body = Text no_tokens_body\<rparr>,
      \<lparr>SPOTIFY_DATA = Map.empty, trace = [KVGet ''spotify_tokens'']\<rparr>)"
  by (simp add: now_playing_defs example_protected_facts empty_world_def)

lemma run_nothing_playing:
  "fetch (example_runtime nothing_playing) example_env example_now_playing authorized_world =
     (Inr \<lparr>status = 200, headers = json_headers, body = Text not_playing_body\<rparr>,
      authorized_world\<lparr>trace :=
         [KVGet ''spotify_tokens'',
          Fetch \<lparr>u_url = ''https://api.spotify.com/v1/me/player/currently-playing'',
                 u_method = ''GET'', u_content_type = ''application/json'',
                 u_authorization = Bearer_of (Some (JStr ''tok'')), u_body = []\<rparr>
            nothing_playing]\<rparr>)"
  by (simp add: now_playing_defs example_protected_facts example_token_facts)

text \<open>
  C9. For a GET request to \<^verbatim>\<open>/now-playing\<close> that carries the configured key: with
  nothing stored under \<open>spotify_tokens\<close> the response is 401 with the message that
  setup is incomplete; with a record stored, when the run's call to the
  currently-playing endpoint is answered 204, the response is 200 with the JSON body
  that holds \<^verbatim>\<open>"playing":false\<close>.
\<close>

theorem now_playing_status:
  assumes "http_method req = ''GET''" and "pathname req = ''/now-playing''"
    and "API_KEY env = Some key" and "key \<noteq> []"
    and "Authorization req = Some (''Bearer '' @ key)"
    and "fetch rt env req w = (res, w')"
  shows "(SPOTIFY_DATA w ''spotify_tokens'' = None \<longrightarrow>
            res = Inr \<lparr>status = 401, headers = json_headers, body = Text no_tokens_body\<rparr>)
         \<and> (\<forall>rq rs. SPOTIFY_DATA w ''spotify_tokens'' \<noteq> None
                \<and> Fetch rq rs \<in> set (events_of w w') \<and> u_status rs = 204 \<longrightarrow>
              u_url rq = ''https://api.spotify.com/v1/me/player/currently-playing''
              \<and> res = Inr \<lparr>status = 200, headers = json_headers,
                           body = Text not_playing_body\<rparr>)
         \<and> sublist playing_false not_playing_body"
proof -
  from now_playing_run [OF assms(1-5), where rt = rt and w = w]
  have "(SPOTIFY_DATA w ''spotify_tokens'' = None \<longrightarrow>
            res = Inr \<lparr>status = 401, headers = json_headers, body = Text no_tokens_body\<rparr>)
         \<and> (\<forall>rq rs. Fetch rq rs \<in> set (events_of w w') \<and> u_status rs = 204 \<longrightarrow>
              u_url rq = ''https://api.spotify.com/v1/me/player/currently-playing''
              \<and> res = Inr \<lparr>status = 200, headers = json_headers,
                           body = Text not_playing_body\<rparr>)"
    by (simp only: assms(6) prod.case)
  with not_playing_body_playing_false show ?thesis by blast
qed

theorem now_playing_status_witness:
  "SPOTIFY_DATA empty_world ''spotify_tokens'' = None
   \<and> fst (fetch (example_runtime nothing_playing) example_env example_now_playing empty_world) =
       Inr \<lparr>status = 401, headers = json_headers, body = Text no_tokens_body\<rparr>
   \<and> SPOTIFY_DATA authorized_world ''spotify_tokens'' \<noteq> None
   \<and> u_status nothing_playing = 204
   \<and> fst (fetch (example_runtime nothing_playing) example_env example_now_playing
             authorized_world) =
       Inr \<lparr>status = 200, headers = json_headers, body = Text not_playing_body\<rparr>"
proof -
  let ?rt = "example_runtime nothing_playing"
  let ?a = "fetch ?rt example_env example_now_playing empty_world"
  let ?b = "fetch ?rt example_env example_now_playing authorized_world"
  let ?rq = "\<lparr>u_url = ''https://api.spotify.com/v1/me/player/currently-playing'',
                 u_method = ''GET'', u_content_type = ''application/json'',
                 u_authorization = Bearer_of (Some (JStr ''tok'')), u_body = []\<rparr>"
  have k: "''key'' \<noteq> []" and h: "Authorization example_now_playing = Some (''Bearer '' @ ''key'')"
    by (simp_all add: example_protected_facts)
  have none: "SPOTIFY_DATA empty_world ''spotify_tokens'' = None"
    by (simp add: example_world_facts)
  have some: "SPOTIFY_DATA authorized_world ''spotify_tokens'' \<noteq> None"
    by (simp add: example_token_facts)
  have called: "Fetch ?rq nothing_playing \<in> set (events_of authorized_world (snd ?b))"
    by (simp add: run_nothing_playing events_of_def example_token_facts)
  have a: "?a = (fst ?a, snd ?a)" and b: "?b = (fst ?b, snd ?b)" by simp_all
  from now_playing_status [OF example_protected_facts(1,2,5) k h a] none
  have "fst ?a = Inr \<lparr>status = 401, headers = json_headers, body = Text no_tokens_body\<rparr>"
    by blast
  moreover
  from now_playing_status [OF example_protected_facts(1,2,5) k h b] some called
    example_token_facts(6)
  have "fst ?b = Inr \<lparr>status = 200, headers = json_headers, body = Text not_playing_body\<rparr>"
    by blast
  ultimately show ?thesis using none some example_token_facts(6) by blast
qed

end
